theory Spec2Isabelle
  imports Main
begin

section \<open>The PNG to SVG converter (png\_to\_svg.py)\<close>

text \<open>
  The module has one operation, \<^verbatim>\<open>png_to_svg(input_file, output_file=None, keep_temp_files=False)\<close>.
  It works on the file system, calls the image library (open, convert, save), spawns the
  external tracer \<^verbatim>\<open>potrace\<close> and prints messages. The embedding passes a \<open>world\<close>
  (file system, printed messages, spawned processes) through every step; each Python
  exception is a value, and every call that can raise returns \<open>py_exception + 'a\<close>.
  What the collaborators outside the module decide (the decoder, the tracer, the operating
  system: which file a path names, which operation it refuses) is read from an \<open>env\<close>
  record.
\<close>

subsection \<open>Paths: \<^verbatim>\<open>os.path.splitext\<close> and \<^verbatim>\<open>os.path.join\<close> (POSIX flavour)\<close>

type_synonym path = string

text \<open>\<^verbatim>\<open>str.rfind\<close> for a single character: the highest index holding it, or \<open>-1\<close>.\<close>

fun rfind :: "char \<Rightarrow> string \<Rightarrow> int" where
  "rfind c [] = - 1"
| "rfind c (x # xs) =
     (let r = rfind c xs in if 0 \<le> r then r + 1 else if x = c then 0 else - 1)"

text \<open>
  The loop of \<^verbatim>\<open>genericpath._splitext\<close> that skips the leading dots of the file name:
  \<^verbatim>\<open>
  while filenameIndex < dotIndex:
      if p[filenameIndex:filenameIndex+1] != extsep:
          return p[:dotIndex], p[dotIndex:]
      filenameIndex += 1
  \<close>
  \<open>True\<close> stands for the early return (a split at the last dot), \<open>False\<close> for leaving
  the loop at its end.
\<close>

function splitext_loop :: "string \<Rightarrow> nat \<Rightarrow> nat \<Rightarrow> bool" where
  "splitext_loop p filenameIndex dotIndex =
     (if filenameIndex < dotIndex
      then (if take 1 (drop filenameIndex p) \<noteq> ''.'' then True
            else splitext_loop p (Suc filenameIndex) dotIndex)
      else False)"
  by pat_completeness auto
termination
  by (relation "measure (\<lambda>(p, i, d). d - i)") auto

declare splitext_loop.simps [simp del]

text \<open>
  \<^verbatim>\<open>os.path.splitext(p)\<close> with \<open>sep = '/'\<close>, no \<open>altsep\<close>, \<open>extsep = '.'\<close>:
  the pair (root, ext).
\<close>

definition splitext :: "path \<Rightarrow> path \<times> string" where
  "splitext p =
     (let sepIndex = rfind CHR ''/'' p;
          dotIndex = rfind CHR ''.'' p
      in if sepIndex < dotIndex \<and> splitext_loop p (nat (sepIndex + 1)) (nat dotIndex)
         then (take (nat dotIndex) p, drop (nat dotIndex) p)
         else (p, []))"

text \<open>\<^verbatim>\<open>os.path.join(a, b)\<close> for two components.\<close>

definition path_join :: "path \<Rightarrow> path \<Rightarrow> path" where
  "path_join a b =
     (if take 1 b = ''/'' then b
      else if a = [] \<or> last a = CHR ''/'' then a @ b
      else a @ ''/'' @ b)"

subsection \<open>Images, files and the world\<close>

text \<open>An image as the image library holds it after \<^verbatim>\<open>Image.open\<close>: its mode (\<open>''L''\<close>,
  \<open>''RGB''\<close>, \<open>''P''\<close>, ...) and its dimensions, read from the header, and its raw band
  data, which the library reads lazily (\<^verbatim>\<open>load\<close>) when \<^verbatim>\<open>convert\<close> or \<^verbatim>\<open>save\<close> first
  needs it. \<open>truncated\<close> says that the file is cut inside its pixel data: the header can
  be read, the data cannot.\<close>

record image =
  mode :: string
  dims :: "nat \<times> nat"
  pixels :: "nat list"
  truncated :: bool

text \<open>A file holds an encoded raster image (the format is abstracted away: opening it
  gives the image back), or a file of a known format whose header is damaged (opening it
  raises \<^verbatim>\<open>OSError\<close> with the given text), or bytes that no decoder recognises (an SVG
  text, a log file).\<close>

datatype content = Raster image | Damaged string | Bytes string

datatype entry = Dir | File content

datatype py_exception =
    FileNotFoundError path
  | FileExistsError path
  | IsADirectoryError path
  | NotADirectoryError path
  | PermissionError path
  | OSError string
  | UnidentifiedImageError path
  | ValueError string
  | CalledProcessError int "string list"

text \<open>The \<^verbatim>\<open>returncode\<close> attribute: only \<^verbatim>\<open>CalledProcessError\<close> has one.\<close>

fun returncode :: "py_exception \<Rightarrow> int option" where
  "returncode (CalledProcessError rc cmd) = Some rc"
| "returncode e = None"

text \<open>The three \<^verbatim>\<open>print\<close> calls of the module, with the values their f-strings show.\<close>

datatype message =
    Converted path path
  | ConversionError py_exception
  | CleanupWarning py_exception

text \<open>The world: the file system as a map from canonical file names to entries, the lines
  printed so far, and the command lines of the processes spawned so far.\<close>

record world =
  fs :: "path \<Rightarrow> entry option"
  stdout :: "message list"
  procs :: "string list list"

text \<open>The tracer is a black box: from what it finds at its input path it yields an exit
  status and, possibly, bytes left at its output path (complete or partial).\<close>

type_synonym tracer = "entry option \<Rightarrow> int \<times> content option"

text \<open>
  The environment of a call. \<open>realpath\<close> gives the canonical name of the file a path
  names (\<^verbatim>\<open>os.path.realpath\<close>): \<^verbatim>\<open>./photo.png\<close>, an absolute path and a symbolic link
  to \<^verbatim>\<open>photo.png\<close> are several spellings of one file, and every operation on a path acts
  on the file it names. \<open>unreadable\<close> marks the files the process may not read. The
  other fields are the outcomes of \<^verbatim>\<open>mkdtemp\<close>, of the library's conversion, of saving,
  of the tracer (\<open>None\<close>: not installed) and of the two removals.
\<close>

record env =
  realpath :: "path \<Rightarrow> path"
  unreadable :: "path \<Rightarrow> bool"
  temp_fault :: "py_exception option"
  temp_names :: "path list"
  convert_data :: "string \<Rightarrow> string \<Rightarrow> nat list \<Rightarrow> nat list option"
  save_fault :: "path \<Rightarrow> (py_exception \<times> string option) option"
  potrace :: "tracer option"
  remove_fault :: "path \<Rightarrow> py_exception option"
  rmdir_fault :: "path \<Rightarrow> py_exception option"

definition say :: "message \<Rightarrow> world \<Rightarrow> world" where
  "say m w = w\<lparr>stdout := stdout w @ [m]\<rparr>"

text \<open>Reading and writing the entry that a path names.\<close>

definition entry_at :: "env \<Rightarrow> world \<Rightarrow> path \<Rightarrow> entry option" where
  "entry_at env w p = fs w (realpath env p)"

definition put_entry :: "env \<Rightarrow> path \<Rightarrow> entry option \<Rightarrow> world \<Rightarrow> world" where
  "put_entry env p e w = w\<lparr>fs := (fs w)(realpath env p := e)\<rparr>"

definition same_file :: "env \<Rightarrow> path \<Rightarrow> path \<Rightarrow> bool" where
  "same_file env p q = (realpath env p = realpath env q)"

text \<open>\<^verbatim>\<open>os.path.exists\<close>.\<close>

definition path_exists :: "env \<Rightarrow> world \<Rightarrow> path \<Rightarrow> bool" where
  "path_exists env w p = (entry_at env w p \<noteq> None)"

text \<open>
  \<^verbatim>\<open>tempfile.mkdtemp()\<close>: fails when no temporary location is usable
  (\<open>temp_fault\<close>); otherwise tries the generated names in turn and creates the first one
  that does not exist yet; \<^verbatim>\<open>FileExistsError\<close> when all are taken.
\<close>

definition mkdtemp :: "env \<Rightarrow> world \<Rightarrow> (py_exception + path) \<times> world" where
  "mkdtemp env w =
     (case temp_fault env of
        Some e \<Rightarrow> (Inl e, w)
      | None \<Rightarrow>
          (case find (\<lambda>d. entry_at env w d = None) (temp_names env) of
             None \<Rightarrow> (Inl (FileExistsError ''No usable temporary directory name found''), w)
           | Some d \<Rightarrow> (Inr d, put_entry env d (Some Dir) w)))"

text \<open>\<^verbatim>\<open>Image.open\<close>: the file must exist, be a regular file the process may read, and
  have a header that a decoder accepts. It reads the header only.\<close>

definition image_open :: "env \<Rightarrow> world \<Rightarrow> path \<Rightarrow> py_exception + image" where
  "image_open env w p =
     (case entry_at env w p of
        None \<Rightarrow> Inl (FileNotFoundError p)
      | Some Dir \<Rightarrow> Inl (IsADirectoryError p)
      | Some (File c) \<Rightarrow>
          (if unreadable env p then Inl (PermissionError p)
           else (case c of
                   Bytes b \<Rightarrow> Inl (UnidentifiedImageError p)
                 | Damaged msg \<Rightarrow> Inl (OSError msg)
                 | Raster img \<Rightarrow> Inr img)))"

text \<open>\<^verbatim>\<open>Image.load\<close>, which \<^verbatim>\<open>convert\<close> and \<^verbatim>\<open>save\<close> call first: reading the pixel
  data of a truncated file raises \<^verbatim>\<open>OSError\<close>.\<close>

definition image_load :: "image \<Rightarrow> py_exception + image" where
  "image_load img =
     (if truncated img then Inl (OSError ''image file is truncated'') else Inr img)"

text \<open>\<^verbatim>\<open>Image.convert(m)\<close>: loads the data, then gives a new image of mode \<open>m\<close> and the
  same dimensions, its band data computed by the library; \<^verbatim>\<open>ValueError\<close> for a
  conversion the library does not have.\<close>

definition image_convert :: "env \<Rightarrow> string \<Rightarrow> image \<Rightarrow> py_exception + image" where
  "image_convert env m img =
     (case image_load img of
        Inl e \<Rightarrow> Inl e
      | Inr loaded \<Rightarrow>
          (case convert_data env (mode loaded) m (pixels loaded) of
             None \<Rightarrow> Inl (ValueError ''conversion not supported'')
           | Some px \<Rightarrow> Inr \<lparr>mode = m, dims = dims loaded, pixels = px, truncated = False\<rparr>))"

text \<open>\<^verbatim>\<open>Image.save(p)\<close>: loads the data before it opens the target; a directory cannot be
  written over; a fault of the operating system (disk full, permissions) raises and may
  leave a partial file.\<close>

definition image_save :: "env \<Rightarrow> image \<Rightarrow> path \<Rightarrow> world \<Rightarrow> (py_exception + unit) \<times> world" where
  "image_save env img p w =
     (case image_load img of
        Inl e \<Rightarrow> (Inl e, w)
      | Inr loaded \<Rightarrow>
          (case entry_at env w p of
             Some Dir \<Rightarrow> (Inl (IsADirectoryError p), w)
           | _ \<Rightarrow>
               (case save_fault env p of
                  Some (e, partial) \<Rightarrow>
                    (Inl e, case partial of
                              None \<Rightarrow> w
                            | Some b \<Rightarrow> put_entry env p (Some (File (Bytes b))) w)
                | None \<Rightarrow> (Inr (), put_entry env p (Some (File (Raster loaded))) w))))"

text \<open>The command line of lines 87 to 90.\<close>

definition potrace_argv :: "path \<Rightarrow> path \<Rightarrow> string list" where
  "potrace_argv output_file bmp_path = [''potrace'', ''--svg'', ''--output'', output_file, bmp_path]"

text \<open>
  \<^verbatim>\<open>subprocess.run(['potrace', '--svg', '--output', output_file, bmp_path], check=True)\<close>.
  An executable that is not installed makes the spawn itself raise
  \<^verbatim>\<open>FileNotFoundError\<close> for the program name, and no process runs. Otherwise the
  process is recorded, the tracer's bytes (if any) land in the file that the output path
  names unless that is a directory, and \<^verbatim>\<open>check=True\<close> turns a non-zero exit status into
  \<^verbatim>\<open>CalledProcessError\<close> carrying the status and the command.
\<close>

definition subprocess_run :: "env \<Rightarrow> path \<Rightarrow> path \<Rightarrow> world \<Rightarrow> (py_exception + unit) \<times> world" where
  "subprocess_run env output_file bmp_path w =
     (case potrace env of
        None \<Rightarrow> (Inl (FileNotFoundError ''potrace''), w)
      | Some tool \<Rightarrow>
          (let (rc, written) = tool (entry_at env w bmp_path);
               w1 = w\<lparr>procs := procs w @ [potrace_argv output_file bmp_path]\<rparr>;
               w2 = (case written of
                       None \<Rightarrow> w1
                     | Some c \<Rightarrow>
                         (if entry_at env w1 output_file = Some Dir then w1
                          else put_entry env output_file (Some (File c)) w1))
           in if rc \<noteq> 0 then (Inl (CalledProcessError rc (potrace_argv output_file bmp_path)), w2)
              else (Inr (), w2)))"

text \<open>\<^verbatim>\<open>os.remove\<close> and \<^verbatim>\<open>os.rmdir\<close>. The operating system may refuse either
  (permissions, a directory that is not empty): \<open>remove_fault\<close> and \<open>rmdir_fault\<close> give
  the exception it raises then.\<close>

definition os_remove :: "env \<Rightarrow> path \<Rightarrow> world \<Rightarrow> (py_exception + unit) \<times> world" where
  "os_remove env p w =
     (case remove_fault env p of
        Some e \<Rightarrow> (Inl e, w)
      | None \<Rightarrow>
          (case entry_at env w p of
             None \<Rightarrow> (Inl (FileNotFoundError p), w)
           | Some Dir \<Rightarrow> (Inl (IsADirectoryError p), w)
           | Some (File c) \<Rightarrow> (Inr (), put_entry env p None w)))"

definition os_rmdir :: "env \<Rightarrow> path \<Rightarrow> world \<Rightarrow> (py_exception + unit) \<times> world" where
  "os_rmdir env p w =
     (case rmdir_fault env p of
        Some e \<Rightarrow> (Inl e, w)
      | None \<Rightarrow>
          (case entry_at env w p of
             None \<Rightarrow> (Inl (FileNotFoundError p), w)
           | Some (File c) \<Rightarrow> (Inl (NotADirectoryError p), w)
           | Some Dir \<Rightarrow> (Inr (), put_entry env p None w)))"

subsection \<open>The operation\<close>

text \<open>Lines 79 and 80: \<^verbatim>\<open>if img.mode != 'L': img = img.convert('L')\<close>.\<close>

definition to_grayscale :: "env \<Rightarrow> image \<Rightarrow> py_exception + image" where
  "to_grayscale env img = (if mode img \<noteq> ''L'' then image_convert env ''L'' img else Inr img)"

text \<open>Step 1 of the \<^verbatim>\<open>try\<close> block (lines 75 to 84): open the input, convert it to
  mode \<open>''L''\<close> if it has another mode, save it as \<^verbatim>\<open>temp.bmp\<close> in the temporary
  directory. The first exception ends it.\<close>

definition step1_bitmap :: "env \<Rightarrow> path \<Rightarrow> path \<Rightarrow> world \<Rightarrow> (py_exception + path) \<times> world" where
  "step1_bitmap env input_file temp_dir w =
     (case image_open env w input_file of
        Inl e \<Rightarrow> (Inl e, w)
      | Inr img \<Rightarrow>
          (case to_grayscale env img of
             Inl e \<Rightarrow> (Inl e, w)
           | Inr img' \<Rightarrow>
               (let bmp_path = path_join temp_dir ''temp.bmp'' in
                case image_save env img' bmp_path w of
                  (Inl e, w1) \<Rightarrow> (Inl e, w1)
                | (Inr u, w1) \<Rightarrow> (Inr bmp_path, w1))))"

text \<open>The whole \<^verbatim>\<open>try\<close> block (lines 75 to 94): step 1, then step 2 (run the tracer),
  print, return the output path.\<close>

definition try_block :: "env \<Rightarrow> path \<Rightarrow> path \<Rightarrow> path \<Rightarrow> world \<Rightarrow> (py_exception + path) \<times> world" where
  "try_block env input_file output_file temp_dir w =
     (case step1_bitmap env input_file temp_dir w of
        (Inl e, w1) \<Rightarrow> (Inl e, w1)
      | (Inr bmp_path, w1) \<Rightarrow>
          (case subprocess_run env output_file bmp_path w1 of
             (Inl e, w2) \<Rightarrow> (Inl e, w2)
           | (Inr u, w2) \<Rightarrow> (Inr output_file, say (Converted input_file output_file) w2)))"

text \<open>The inner \<^verbatim>\<open>try\<close> of the \<^verbatim>\<open>finally\<close> block (lines 104 to 107): remove the
  bitmap if it exists, then the directory.\<close>

definition cleanup :: "env \<Rightarrow> path \<Rightarrow> world \<Rightarrow> (py_exception + unit) \<times> world" where
  "cleanup env temp_dir w =
     (let bmp_path = path_join temp_dir ''temp.bmp'' in
      case (if path_exists env w bmp_path then os_remove env bmp_path w else (Inr (), w)) of
        (Inl e, w1) \<Rightarrow> (Inl e, w1)
      | (Inr u, w1) \<Rightarrow> os_rmdir env temp_dir w1)"

text \<open>The \<^verbatim>\<open>finally\<close> block (lines 100 to 109): nothing when the temporary files are
  kept; otherwise the cleanup, whose exception is caught and printed as a warning.\<close>

definition finally_block :: "env \<Rightarrow> path \<Rightarrow> bool \<Rightarrow> world \<Rightarrow> world" where
  "finally_block env temp_dir keep_temp_files w =
     (if \<not> keep_temp_files then
        (case cleanup env temp_dir w of
           (Inl e, w1) \<Rightarrow> say (CleanupWarning e) w1
         | (Inr u, w1) \<Rightarrow> w1)
      else w)"

text \<open>The default of line 69, \<^verbatim>\<open>os.path.splitext(input_file)[0] + '.svg'\<close>, or the
  caller's path.\<close>

definition resolve_output :: "path \<Rightarrow> path option \<Rightarrow> path" where
  "resolve_output input_file output_file =
     (case output_file of
        None \<Rightarrow> fst (splitext input_file) @ ''.svg''
      | Some out \<Rightarrow> out)"

text \<open>The \<^verbatim>\<open>except\<close> clause (lines 96 to 98): print the exception and re-raise it. A
  normal return of the \<^verbatim>\<open>try\<close> block does not enter it.\<close>

definition except_block :: "py_exception + path \<Rightarrow> world \<Rightarrow> world" where
  "except_block r w = (case r of Inl e \<Rightarrow> say (ConversionError e) w | Inr p \<Rightarrow> w)"

text \<open>\<^verbatim>\<open>png_to_svg\<close>: the existence check, the output path, the temporary directory,
  then \<^verbatim>\<open>try\<close> / \<^verbatim>\<open>except\<close> / \<^verbatim>\<open>finally\<close>. The value or exception of the \<^verbatim>\<open>try\<close>
  block is the outcome of the call; the \<^verbatim>\<open>finally\<close> block only changes the world.\<close>

definition png_to_svg ::
  "env \<Rightarrow> path \<Rightarrow> path option \<Rightarrow> bool \<Rightarrow> world \<Rightarrow> (py_exception + path) \<times> world" where
  "png_to_svg env input_file output_file keep_temp_files w =
     (if \<not> path_exists env w input_file then (Inl (FileNotFoundError input_file), w)
      else
        (let out = resolve_output input_file output_file in
         case mkdtemp env w of
           (Inl e, w1) \<Rightarrow> (Inl e, w1)
         | (Inr temp_dir, w1) \<Rightarrow>
             (let (r, w2) = try_block env input_file out temp_dir w1;
                  w3 = except_block r w2;
                  w4 = finally_block env temp_dir keep_temp_files w3
              in (r, w4))))"

subsection \<open>Concrete environments and worlds\<close>

text \<open>The library's conversion of RGB band data to luminance (ITU-R 601-2), enough for
  the examples.\<close>

fun luma :: "nat list \<Rightarrow> nat list" where
  "luma (r # g # b # rest) = (299 * r + 587 * g + 114 * b) div 1000 # luma rest"
| "luma rest = []"

definition rgb_photo :: image where
  "rgb_photo = \<lparr>mode = ''RGB'', dims = (1, 1), pixels = [10, 20, 30], truncated = False\<rparr>"

definition gray_art :: image where
  "gray_art = \<lparr>mode = ''L'', dims = (2, 1), pixels = [0, 255], truncated = False\<rparr>"

text \<open>A grayscale scan whose file is cut inside the pixel data.\<close>

definition cut_scan :: image where
  "cut_scan = \<lparr>mode = ''L'', dims = (2, 2), pixels = [7, 7], truncated = True\<rparr>"

text \<open>A tracer that works, and one that leaves a partial file and exits with status 1.\<close>

definition tracer_ok :: tracer where
  "tracer_ok seen = (case seen of Some (File (Raster img)) \<Rightarrow> (0, Some (Bytes ''<svg/>'')) | _ \<Rightarrow> (2, None))"

definition tracer_failing :: tracer where
  "tracer_failing seen = (1, Some (Bytes ''<svg''))"

definition env_ok :: env where
  "env_ok = \<lparr>realpath = (\<lambda>p. p), unreadable = (\<lambda>p. False),
     temp_fault = None, temp_names = [''/tmp/tmpk3x9''],
     convert_data = (\<lambda>from to px. Some (luma px)),
     save_fault = (\<lambda>p. None), potrace = Some tracer_ok,
     remove_fault = (\<lambda>p. None), rmdir_fault = (\<lambda>p. None)\<rparr>"

definition env_tool_fails :: env where
  "env_tool_fails = env_ok\<lparr>potrace := Some tracer_failing\<rparr>"

definition env_no_tool :: env where
  "env_no_tool = env_ok\<lparr>potrace := None\<rparr>"

definition env_rmdir_refused :: env where
  "env_rmdir_refused = env_ok\<lparr>rmdir_fault := (\<lambda>p. Some (PermissionError p))\<rparr>"

definition env_tool_fails_rmdir_refused :: env where
  "env_tool_fails_rmdir_refused = env_tool_fails\<lparr>rmdir_fault := (\<lambda>p. Some (PermissionError p))\<rparr>"

text \<open>An environment in which \<^verbatim>\<open>./photo.png\<close> is another spelling of \<^verbatim>\<open>photo.png\<close>.\<close>

definition env_alias :: env where
  "env_alias = env_ok\<lparr>realpath := (\<lambda>p. if p = ''./photo.png'' then ''photo.png'' else p)\<rparr>"

definition world0 :: world where
  "world0 = \<lparr>fs = [''photo.png'' \<mapsto> File (Raster rgb_photo),
                  ''art.png'' \<mapsto> File (Raster gray_art),
                  ''broken.png'' \<mapsto> File (Bytes ''not an image''),
                  ''header.png'' \<mapsto> File (Damaged ''broken PNG file''),
                  ''cut.png'' \<mapsto> File (Raster cut_scan),
                  ''out'' \<mapsto> Dir],
             stdout = [], procs = []\<rparr>"

section \<open>Properties\<close>

text \<open>
  A property about one failure is stated for a run in which the steps before it did their
  work; the theorem lists them as hypotheses (the input holds a complete image,
  \<^verbatim>\<open>mkdtemp\<close> returns a directory, the new directory is empty, the bitmap is saved). The
  removals of the \<^verbatim>\<open>finally\<close> block are best effort in the code: the theorems about
  the error paths say what holds in every case (the bitmap and the directory are gone, or a
  warning was printed) and what holds when the operating system carries the removals out
  (they are gone).
\<close>

lemmas run_defs =
  png_to_svg_def path_exists_def entry_at_def put_entry_def resolve_output_def mkdtemp_def
  try_block_def step1_bitmap_def image_open_def image_load_def to_grayscale_def
  image_convert_def path_join_def image_save_def subprocess_run_def potrace_argv_def say_def
  except_block_def finally_block_def cleanup_def os_remove_def os_rmdir_def Let_def

lemmas example_defs =
  world0_def env_ok_def env_tool_fails_def env_no_tool_def env_rmdir_refused_def
  env_tool_fails_rmdir_refused_def env_alias_def
  rgb_photo_def gray_art_def cut_scan_def tracer_ok_def tracer_failing_def

subsection \<open>Entries and the files that paths name\<close>

lemma entry_at_put:
  "entry_at env (put_entry env p e w) q = (if same_file env q p then e else entry_at env w q)"
  by (simp add: entry_at_def put_entry_def same_file_def)

lemma log_put: "stdout (put_entry env p e w) = stdout w" "procs (put_entry env p e w) = procs w"
  by (simp_all add: put_entry_def)

lemma entry_at_say: "entry_at env (say m w) p = entry_at env w p"
  by (simp add: entry_at_def say_def)

lemma entry_at_procs: "entry_at env (w\<lparr>procs := ps\<rparr>) p = entry_at env w p"
  by (simp add: entry_at_def)

lemma same_file_refl: "same_file env p p"
  by (simp add: same_file_def)

lemma same_file_entry: "same_file env p q \<Longrightarrow> entry_at env w p = entry_at env w q"
  by (simp add: same_file_def entry_at_def)

lemmas world_simps = entry_at_put log_put entry_at_say entry_at_procs same_file_refl

subsection \<open>The steps, one at a time\<close>

lemma mkdtemp_Inr:
  assumes "fst (mkdtemp env w) = Inr d"
  shows "entry_at env w d = None \<and> snd (mkdtemp env w) = put_entry env d (Some Dir) w"
proof (cases "find (\<lambda>d. entry_at env w d = None) (temp_names env)")
  case None
  then show ?thesis using assms by (simp add: mkdtemp_def split: option.splits)
next
  case (Some d')
  then have "entry_at env w d' = None" by (auto simp: find_Some_iff)
  moreover have "d' = d \<and> snd (mkdtemp env w) = put_entry env d' (Some Dir) w"
    using assms Some by (simp add: mkdtemp_def split: option.splits)
  ultimately show ?thesis by simp
qed

lemma mkdtemp_name:
  assumes "fst (mkdtemp env w) = Inr d"
  shows "d \<in> set (temp_names env)"
proof (cases "find (\<lambda>d. entry_at env w d = None) (temp_names env)")
  case None
  then show ?thesis using assms by (simp add: mkdtemp_def split: option.splits)
next
  case (Some d')
  then have "d' \<in> set (temp_names env)" by (auto simp: find_Some_iff)
  moreover have "d' = d" using assms Some by (simp add: mkdtemp_def split: option.splits)
  ultimately show ?thesis by simp
qed

lemma mkdtemp_Inl: "fst (mkdtemp env w) = Inl e \<Longrightarrow> snd (mkdtemp env w) = w"
  by (auto simp: mkdtemp_def split: option.splits)

text \<open>The new directory is no spelling of a file that existed before, and when it is
  empty the bitmap path names another file than the directory.\<close>

lemma new_dir_other:
  assumes "fst (mkdtemp env w) = Inr d" and "path_exists env w p"
  shows "\<not> same_file env p d"
  using mkdtemp_Inr [OF assms(1)] assms(2) same_file_entry [of env p d w]
  by (auto simp: path_exists_def)

lemma new_dir_empty:
  assumes "fst (mkdtemp env w) = Inr d"
    and "entry_at env (snd (mkdtemp env w)) (path_join d ''temp.bmp'') = None"
  shows "\<not> same_file env (path_join d ''temp.bmp'') d \<and>
         entry_at env w (path_join d ''temp.bmp'') = None"
  using mkdtemp_Inr [OF assms(1)] assms(2)
  by (auto simp: world_simps split: if_splits)

lemma to_grayscale_mode:
  "to_grayscale env img = Inr g \<Longrightarrow> mode g = ''L'' \<and> dims g = dims img"
  by (auto simp: to_grayscale_def image_convert_def image_load_def
      split: if_splits option.splits)

lemma to_grayscale_complete:
  "to_grayscale env img = Inr g \<Longrightarrow> \<not> truncated img \<Longrightarrow> \<not> truncated g"
  by (auto simp: to_grayscale_def image_convert_def image_load_def
      split: if_splits option.splits)

lemma image_open_cong:
  "entry_at env w' p = entry_at env w p \<Longrightarrow> image_open env w' p = image_open env w p"
  by (simp add: image_open_def)


lemma image_open_Inr:
  "image_open env w p = Inr img \<Longrightarrow> entry_at env w p = Some (File (Raster img))"
  by (auto simp: image_open_def split: option.splits entry.splits content.splits if_splits)

lemma step1_success:
  assumes "entry_at env w input_file = Some (File (Raster img))"
    and "\<not> unreadable env input_file"
    and "to_grayscale env img = Inr g"
    and "\<not> truncated g"
    and "entry_at env w (path_join d ''temp.bmp'') \<noteq> Some Dir"
    and "save_fault env (path_join d ''temp.bmp'') = None"
  shows "step1_bitmap env input_file d w =
    (Inr (path_join d ''temp.bmp''),
     put_entry env (path_join d ''temp.bmp'') (Some (File (Raster g))) w)"
  using assms
  by (auto simp: step1_bitmap_def image_open_def image_save_def image_load_def Let_def
      split: option.splits entry.splits)

lemma step1_Inr:
  assumes "step1_bitmap env input_file d w = (Inr b, w2)"
  shows "b = path_join d ''temp.bmp'' \<and>
    (\<exists>img g. entry_at env w input_file = Some (File (Raster img)) \<and>
       to_grayscale env img = Inr g \<and> \<not> truncated g \<and>
       w2 = put_entry env b (Some (File (Raster g))) w)"
  using assms
  by (auto simp: step1_bitmap_def image_open_def image_save_def image_load_def Let_def
      split: option.splits entry.splits content.splits sum.splits prod.splits if_splits)

lemma step1_frame:
  "\<not> same_file env p (path_join d ''temp.bmp'') \<Longrightarrow>
   entry_at env (snd (step1_bitmap env i d w)) p = entry_at env w p"
  by (auto simp: step1_bitmap_def image_save_def world_simps Let_def
      split: option.splits entry.splits content.splits sum.splits prod.splits)

lemma step1_log:
  "stdout (snd (step1_bitmap env i d w)) = stdout w \<and> procs (snd (step1_bitmap env i d w)) = procs w"
  by (auto simp: step1_bitmap_def image_save_def world_simps Let_def
      split: option.splits entry.splits content.splits sum.splits prod.splits)

text \<open>No step of the \<^verbatim>\<open>try\<close> block makes or unmakes a directory.\<close>

lemma step1_dir:
  "(entry_at env (snd (step1_bitmap env i d w)) p = Some Dir) = (entry_at env w p = Some Dir)"
  using same_file_entry [of env p "path_join d ''temp.bmp''" w]
  by (auto simp: step1_bitmap_def image_save_def world_simps Let_def
      split: option.splits entry.splits content.splits sum.splits prod.splits if_splits)

lemma step1_open_fail:
  "image_open env w i = Inl e \<Longrightarrow> step1_bitmap env i d w = (Inl e, w)"
  by (simp add: step1_bitmap_def)

text \<open>A file cut inside its pixel data: the failure comes from \<^verbatim>\<open>convert\<close>, or from
  \<^verbatim>\<open>save\<close> before it opens its target, and nothing is written.\<close>

lemma step1_load_fail:
  assumes "image_open env w i = Inr img" and "image_load img = Inl e"
  shows "step1_bitmap env i d w = (Inl e, w)"
  using assms
  by (auto simp: step1_bitmap_def to_grayscale_def image_convert_def image_save_def Let_def
      split: sum.splits)

lemma run_frame:
  "\<not> same_file env p out \<Longrightarrow> entry_at env (snd (subprocess_run env out b w)) p = entry_at env w p"
  by (auto simp: subprocess_run_def world_simps Let_def split: option.splits prod.splits)

lemma run_dir:
  "(entry_at env (snd (subprocess_run env out b w)) p = Some Dir) = (entry_at env w p = Some Dir)"
  using same_file_entry [of env p out w]
  by (auto simp: subprocess_run_def world_simps Let_def
      split: option.splits prod.splits if_splits)

lemma run_keeps:
  "entry_at env w p \<noteq> None \<Longrightarrow> entry_at env (snd (subprocess_run env out b w)) p \<noteq> None"
  by (auto simp: subprocess_run_def world_simps Let_def
      split: option.splits prod.splits if_splits)

lemma run_stdout: "stdout (snd (subprocess_run env out b w)) = stdout w"
  by (auto simp: subprocess_run_def world_simps Let_def split: option.splits prod.splits)

lemma try_block_open_fail:
  "image_open env w i = Inl e \<Longrightarrow> try_block env i out d w = (Inl e, w)"
  by (simp add: try_block_def step1_bitmap_def)

lemma try_block_value:
  "try_block env i out d w = (Inr p, w') \<Longrightarrow> p = out"
  by (auto simp: try_block_def split: prod.splits sum.splits)

lemma try_frame:
  assumes "\<not> same_file env p out" and "\<not> same_file env p (path_join d ''temp.bmp'')"
  shows "entry_at env (snd (try_block env i out d w)) p = entry_at env w p"
proof (cases "step1_bitmap env i d w")
  case (Pair r w1)
  have a: "entry_at env w1 p = entry_at env w p"
    using step1_frame [OF assms(2), of i w] Pair by simp
  show ?thesis
  proof (cases r)
    case (Inl e)
    then show ?thesis using Pair a by (simp add: try_block_def)
  next
    case (Inr b)
    have "entry_at env (snd (subprocess_run env out b w1)) p = entry_at env w p"
      using a run_frame [OF assms(1), of b w1] by simp
    then show ?thesis using Pair Inr
      by (auto simp: try_block_def world_simps split: prod.splits sum.splits)
  qed
qed

lemma try_dir:
  "(entry_at env (snd (try_block env i out d w)) p = Some Dir) = (entry_at env w p = Some Dir)"
proof (cases "step1_bitmap env i d w")
  case (Pair r w1)
  have a: "(entry_at env w1 p = Some Dir) = (entry_at env w p = Some Dir)"
    using step1_dir [of env i d w p] Pair by simp
  show ?thesis
  proof (cases r)
    case (Inl e)
    then show ?thesis using Pair a by (simp add: try_block_def)
  next
    case (Inr b)
    have "(entry_at env (snd (subprocess_run env out b w1)) p = Some Dir) =
        (entry_at env w p = Some Dir)"
      using a by (simp add: run_dir)
    then show ?thesis using Pair Inr
      by (auto simp: try_block_def world_simps split: prod.splits sum.splits)
  qed
qed

lemma try_stdout:
  "stdout (snd (try_block env i out d w)) =
     (case fst (try_block env i out d w) of
        Inl e \<Rightarrow> stdout w
      | Inr p \<Rightarrow> stdout w @ [Converted i out])"
proof (cases "step1_bitmap env i d w")
  case (Pair r w1)
  have l: "stdout w1 = stdout w" using step1_log [of env i d w] Pair by simp
  show ?thesis
  proof (cases r)
    case (Inl e)
    then show ?thesis using Pair l by (simp add: try_block_def)
  next
    case (Inr b)
    have "stdout (snd (subprocess_run env out b w1)) = stdout w"
      using l by (simp add: run_stdout)
    then show ?thesis using Pair Inr
      by (auto simp: try_block_def say_def split: prod.splits sum.splits)
  qed
qed

lemma cleanup_frame:
  "\<not> same_file env p d \<Longrightarrow> \<not> same_file env p (path_join d ''temp.bmp'') \<Longrightarrow>
   entry_at env (snd (cleanup env d w)) p = entry_at env w p"
  by (auto simp: cleanup_def os_remove_def os_rmdir_def Let_def path_exists_def world_simps
      split: option.splits entry.splits prod.splits sum.splits)

lemma cleanup_log:
  "stdout (snd (cleanup env d w)) = stdout w \<and> procs (snd (cleanup env d w)) = procs w"
  by (auto simp: cleanup_def os_remove_def os_rmdir_def Let_def path_exists_def world_simps
      split: option.splits entry.splits prod.splits sum.splits)

lemma cleanup_ok:
  assumes "entry_at env w (path_join d ''temp.bmp'') = None \<or>
           remove_fault env (path_join d ''temp.bmp'') = None"
    and "rmdir_fault env d = None"
    and "entry_at env w d = Some Dir"
    and "entry_at env w (path_join d ''temp.bmp'') \<noteq> Some Dir"
  shows "fst (cleanup env d w) = Inr () \<and> entry_at env (snd (cleanup env d w)) d = None \<and>
         entry_at env (snd (cleanup env d w)) (path_join d ''temp.bmp'') = None"
  using assms same_file_entry [of env d "path_join d ''temp.bmp''" w]
  by (auto simp: cleanup_def os_remove_def os_rmdir_def Let_def path_exists_def world_simps
      split: option.splits entry.splits prod.splits sum.splits)

lemma cleanup_Inr:
  assumes "fst (cleanup env d w) = Inr u"
  shows "entry_at env (snd (cleanup env d w)) d = None \<and>
         entry_at env (snd (cleanup env d w)) (path_join d ''temp.bmp'') = None"
  using assms
  by (auto simp: cleanup_def os_remove_def os_rmdir_def Let_def path_exists_def world_simps
      split: option.splits entry.splits prod.splits sum.splits if_splits)

lemma finally_keep: "finally_block env d True w = w"
  by (simp add: finally_block_def)

lemma finally_frame:
  "\<not> same_file env p d \<Longrightarrow> \<not> same_file env p (path_join d ''temp.bmp'') \<Longrightarrow>
   entry_at env (finally_block env d k w) p = entry_at env w p"
  using cleanup_frame [of env p d w]
  by (auto simp: finally_block_def world_simps split: prod.splits sum.splits)

lemma finally_procs: "procs (finally_block env d k w) = procs w"
  using cleanup_log [of env d w]
  by (auto simp: finally_block_def say_def split: prod.splits sum.splits)

lemma finally_ok:
  assumes "entry_at env w (path_join d ''temp.bmp'') = None \<or>
           remove_fault env (path_join d ''temp.bmp'') = None"
    and "rmdir_fault env d = None"
    and "entry_at env w d = Some Dir"
    and "entry_at env w (path_join d ''temp.bmp'') \<noteq> Some Dir"
  shows "entry_at env (finally_block env d False w) d = None \<and>
         entry_at env (finally_block env d False w) (path_join d ''temp.bmp'') = None \<and>
         stdout (finally_block env d False w) = stdout w"
  using cleanup_ok [OF assms] cleanup_log [of env d w]
  by (auto simp: finally_block_def split: prod.splits sum.splits)

text \<open>Without retention the \<^verbatim>\<open>finally\<close> block ends in one of two ways: the bitmap and
  the directory are gone and nothing was printed, or a warning was printed.\<close>

lemma finally_cases:
  "(entry_at env (finally_block env d False w) d = None \<and>
    entry_at env (finally_block env d False w) (path_join d ''temp.bmp'') = None \<and>
    stdout (finally_block env d False w) = stdout w) \<or>
   (\<exists>ce. stdout (finally_block env d False w) = stdout w @ [CleanupWarning ce])"
proof (cases "fst (cleanup env d w)")
  case (Inl ce)
  then have "stdout (finally_block env d False w) = stdout w @ [CleanupWarning ce]"
    using cleanup_log [of env d w]
    by (auto simp: finally_block_def say_def split: prod.splits sum.splits)
  then show ?thesis by blast
next
  case (Inr u)
  then have "finally_block env d False w = snd (cleanup env d w)"
    by (auto simp: finally_block_def split: prod.splits sum.splits)
  then show ?thesis using cleanup_Inr [OF Inr] cleanup_log [of env d w] by simp
qed


lemma except_entry: "entry_at env (except_block r w) p = entry_at env w p"
  by (simp add: except_block_def world_simps split: sum.splits)

lemma except_procs: "procs (except_block r w) = procs w"
  by (simp add: except_block_def say_def split: sum.splits)

lemma png_to_svg_phases:
  assumes "path_exists env w i" and "fst (mkdtemp env w) = Inr d"
  shows "png_to_svg env i out k w =
    (fst (try_block env i (resolve_output i out) d (put_entry env d (Some Dir) w)),
     finally_block env d k
       (except_block (fst (try_block env i (resolve_output i out) d (put_entry env d (Some Dir) w)))
          (snd (try_block env i (resolve_output i out) d (put_entry env d (Some Dir) w)))))"
proof -
  have "mkdtemp env w = (Inr d, put_entry env d (Some Dir) w)"
    using mkdtemp_Inr [OF assms(2)] assms(2) by (simp add: prod_eq_iff)
  then show ?thesis using assms(1)
    by (simp add: png_to_svg_def Let_def split: prod.splits)
qed

lemma png_to_svg_no_tempdir:
  assumes "path_exists env w i" and "fst (mkdtemp env w) = Inl e"
  shows "png_to_svg env i out k w = (Inl e, w)"
proof -
  have "mkdtemp env w = (Inl e, w)"
    using assms(2) mkdtemp_Inl [OF assms(2)] by (simp add: prod_eq_iff)
  then show ?thesis using assms(1) by (simp add: png_to_svg_def Let_def)
qed

lemma png_to_svg_value:
  assumes "fst (png_to_svg env input_file output_file keep_temp_files w) = Inr p"
  shows "p = resolve_output input_file output_file"
  using assms
  by (auto simp: png_to_svg_def Let_def split: if_splits prod.splits sum.splits
        dest: try_block_value)

text \<open>Step 1 on the world that \<^verbatim>\<open>mkdtemp\<close> leaves, when every part of it works.\<close>

lemma staged:
  assumes input: "entry_at env w input_file = Some (File (Raster img))"
    and whole: "\<not> unreadable env input_file" "\<not> truncated img"
    and dir: "fst (mkdtemp env w) = Inr d"
    and gray: "to_grayscale env img = Inr g"
    and fresh: "entry_at env (snd (mkdtemp env w)) (path_join d ''temp.bmp'') = None"
    and save: "save_fault env (path_join d ''temp.bmp'') = None"
  shows "step1_bitmap env input_file d (put_entry env d (Some Dir) w) =
    (Inr (path_join d ''temp.bmp''),
     put_entry env (path_join d ''temp.bmp'') (Some (File (Raster g)))
       (put_entry env d (Some Dir) w))"
proof -
  have ex: "path_exists env w input_file" using input by (simp add: path_exists_def)
  have a: "entry_at env (put_entry env d (Some Dir) w) input_file = Some (File (Raster img))"
    using new_dir_other [OF dir ex] input by (simp add: world_simps)
  have b: "entry_at env (put_entry env d (Some Dir) w) (path_join d ''temp.bmp'') \<noteq> Some Dir"
    using fresh mkdtemp_Inr [OF dir] by simp
  show ?thesis
    using step1_success [OF a whole(1) gray to_grayscale_complete [OF gray whole(2)] b save] .
qed

text \<open>The \<^verbatim>\<open>try\<close> block after step 1 has worked: the tracer is called on the saved
  bitmap.\<close>

lemma after_step1:
  assumes input: "entry_at env w input_file = Some (File (Raster img))"
    and whole: "\<not> unreadable env input_file" "\<not> truncated img"
    and dir: "fst (mkdtemp env w) = Inr d"
    and gray: "to_grayscale env img = Inr g"
    and fresh: "entry_at env (snd (mkdtemp env w)) (path_join d ''temp.bmp'') = None"
    and save: "save_fault env (path_join d ''temp.bmp'') = None"
  shows "try_block env input_file out d (put_entry env d (Some Dir) w) =
    (case subprocess_run env out (path_join d ''temp.bmp'')
            (put_entry env (path_join d ''temp.bmp'') (Some (File (Raster g)))
               (put_entry env d (Some Dir) w)) of
       (Inl e, w2) \<Rightarrow> (Inl e, w2)
     | (Inr u, w2) \<Rightarrow> (Inr out, say (Converted input_file out) w2))"
  using staged [OF input whole dir gray fresh save] by (simp add: try_block_def)

text \<open>The call when step 1 raises before it writes anything: the input cannot be opened
  as an image, or its pixel data cannot be loaded.\<close>

lemma decode_failure_run:
  assumes ex: "path_exists env w input_file"
    and fails: "(case image_open env w input_file of
                   Inl e' \<Rightarrow> e' = e
                 | Inr img \<Rightarrow> image_load img = Inl e)"
    and dir: "fst (mkdtemp env w) = Inr d"
  shows "png_to_svg env input_file output_file keep_temp_files w =
    (Inl e, finally_block env d keep_temp_files
       (say (ConversionError e) (put_entry env d (Some Dir) w)))"
proof -
  define w1 where "w1 = put_entry env d (Some Dir) w"
  have "entry_at env w1 input_file = entry_at env w input_file"
    using new_dir_other [OF dir ex] by (simp add: w1_def world_simps)
  then have op: "image_open env w1 input_file = image_open env w input_file"
    by (rule image_open_cong)
  have "step1_bitmap env input_file d w1 = (Inl e, w1)"
  proof (cases "image_open env w input_file")
    case (Inl e')
    then show ?thesis using fails op step1_open_fail [of env w1 input_file e d] by simp
  next
    case (Inr img)
    then show ?thesis using fails op step1_load_fail [of env w1 input_file img e d] by simp
  qed
  then have "try_block env input_file (resolve_output input_file output_file) d w1 = (Inl e, w1)"
    by (simp add: try_block_def)
  then show ?thesis
    using png_to_svg_phases [OF ex dir, of output_file keep_temp_files]
    by (simp add: except_block_def w1_def)
qed

text \<open>What every call that got its temporary directory leaves for the \<^verbatim>\<open>finally\<close>
  block: the directory is there, and no directory sits at the bitmap path.\<close>

lemma before_finally:
  assumes ex: "path_exists env w i"
    and dir: "fst (mkdtemp env w) = Inr d"
    and fresh: "entry_at env (snd (mkdtemp env w)) (path_join d ''temp.bmp'') = None"
    and t: "t = try_block env i (resolve_output i out) d (put_entry env d (Some Dir) w)"
    and w3: "w3 = except_block (fst t) (snd t)"
  shows "png_to_svg env i out k w = (fst t, finally_block env d k w3)"
    and "entry_at env w3 d = Some Dir"
    and "entry_at env w3 (path_join d ''temp.bmp'') \<noteq> Some Dir"
    and "stdout w3 = (case fst t of Inl e \<Rightarrow> stdout w @ [ConversionError e]
                      | Inr p \<Rightarrow> stdout w @ [Converted i (resolve_output i out)])"
    and "procs w3 = procs (snd t)"
proof -
  have m: "snd (mkdtemp env w) = put_entry env d (Some Dir) w"
    using mkdtemp_Inr [OF dir] by simp
  show "png_to_svg env i out k w = (fst t, finally_block env d k w3)"
    using png_to_svg_phases [OF ex dir] by (simp add: t w3)
  show "entry_at env w3 d = Some Dir"
    by (simp add: w3 except_entry t try_dir world_simps)
  show "entry_at env w3 (path_join d ''temp.bmp'') \<noteq> Some Dir"
    using fresh by (simp add: w3 except_entry t try_dir m)
  show "stdout w3 = (case fst t of Inl e \<Rightarrow> stdout w @ [ConversionError e]
                      | Inr p \<Rightarrow> stdout w @ [Converted i (resolve_output i out)])"
    using try_stdout [of env i "resolve_output i out" d "put_entry env d (Some Dir) w"]
    by (simp add: w3 t except_block_def say_def world_simps split: sum.splits)
  show "procs w3 = procs (snd t)"
    by (simp add: w3 except_procs)
qed

text \<open>Every write of a call goes to the file the output path names, to the temporary
  directory or to the bitmap in it.\<close>

lemma png_to_svg_frame:
  assumes out: "\<not> same_file env p (resolve_output i out)"
    and tmp: "\<And>d. fst (mkdtemp env w) = Inr d \<Longrightarrow>
      \<not> same_file env p d \<and> \<not> same_file env p (path_join d ''temp.bmp'')"
  shows "entry_at env (snd (png_to_svg env i out k w)) p = entry_at env w p"
proof (cases "path_exists env w i")
  case False
  then show ?thesis by (simp add: png_to_svg_def)
next
  case True
  show ?thesis
  proof (cases "fst (mkdtemp env w)")
    case (Inl e)
    then show ?thesis using png_to_svg_no_tempdir [OF True Inl] by simp
  next
    case (Inr d)
    have ne: "\<not> same_file env p d" "\<not> same_file env p (path_join d ''temp.bmp'')"
      using tmp [OF Inr] by simp_all
    have "entry_at env (snd (png_to_svg env i out k w)) p =
        entry_at env (snd (try_block env i (resolve_output i out) d (put_entry env d (Some Dir) w))) p"
      using png_to_svg_phases [OF True Inr, of out k] ne
      by (simp add: finally_frame except_entry)
    also have "\<dots> = entry_at env (put_entry env d (Some Dir) w) p"
      using try_frame [OF out ne(2)] .
    also have "\<dots> = entry_at env w p" using ne(1) by (simp add: world_simps)
    finally show ?thesis .
  qed
qed

text \<open>The outcome of a call does not depend on what the removals at the end do.\<close>

lemma faults_irrelevant:
  "fst (png_to_svg (env\<lparr>remove_fault := rf, rmdir_fault := df\<rparr>) i out k w) =
   fst (png_to_svg env i out k w)"
proof -
  have e: "entry_at (env\<lparr>remove_fault := rf, rmdir_fault := df\<rparr>) = entry_at env"
    by (intro ext) (simp add: entry_at_def)
  have p: "put_entry (env\<lparr>remove_fault := rf, rmdir_fault := df\<rparr>) = put_entry env"
    by (intro ext) (simp add: put_entry_def)
  have x: "path_exists (env\<lparr>remove_fault := rf, rmdir_fault := df\<rparr>) = path_exists env"
    by (intro ext) (simp add: path_exists_def e)
  have m: "mkdtemp (env\<lparr>remove_fault := rf, rmdir_fault := df\<rparr>) w = mkdtemp env w"
    unfolding mkdtemp_def e p by (simp split: option.splits)
  have o: "image_open (env\<lparr>remove_fault := rf, rmdir_fault := df\<rparr>) = image_open env"
    unfolding image_open_def e by (intro ext) (simp split: option.splits entry.splits)
  have g: "to_grayscale (env\<lparr>remove_fault := rf, rmdir_fault := df\<rparr>) = to_grayscale env"
    by (rule ext) (simp add: to_grayscale_def image_convert_def split: option.splits sum.splits)
  have s: "image_save (env\<lparr>remove_fault := rf, rmdir_fault := df\<rparr>) = image_save env"
    unfolding image_save_def e p by (intro ext) (simp split: option.splits entry.splits sum.splits)
  have r: "subprocess_run (env\<lparr>remove_fault := rf, rmdir_fault := df\<rparr>) = subprocess_run env"
    unfolding subprocess_run_def e p by (intro ext) (simp split: option.splits)
  have t: "try_block (env\<lparr>remove_fault := rf, rmdir_fault := df\<rparr>) i q d w1 = try_block env i q d w1"
    for q d w1
    unfolding try_block_def step1_bitmap_def o g s r ..
  show ?thesis
    by (simp add: png_to_svg_def x m t Let_def split: prod.splits sum.splits)
qed

subsection \<open>The extension split\<close>

lemma rfind_lower: "- 1 \<le> rfind c s"
  by (induction s) (auto simp: Let_def)

lemma rfind_upper: "rfind c s < int (length s)"
  by (induction s) (auto simp: Let_def)

lemma rfind_absent: "rfind c s < 0 \<Longrightarrow> c \<notin> set s"
  by (induction s) (auto simp: Let_def split: if_splits)

lemma rfind_hit: "0 \<le> rfind c s \<Longrightarrow> s ! nat (rfind c s) = c"
  by (induction s) (auto simp: Let_def nat_add_distrib split: if_splits)

lemma rfind_after: "rfind c s < int i \<Longrightarrow> c \<notin> set (drop i s)"
proof (induction s arbitrary: i)
  case Nil
  then show ?case by simp
next
  case (Cons x xs)
  show ?case
  proof (cases i)
    case 0
    with Cons.prems have "rfind c (x # xs) < 0" by simp
    then have "c \<notin> set (x # xs)" by (rule rfind_absent)
    then show ?thesis using 0 by simp
  next
    case (Suc j)
    have "rfind c xs < int j"
    proof (cases "0 \<le> rfind c xs")
      case True
      then show ?thesis using Cons.prems Suc by (simp add: Let_def)
    next
      case False
      then show ?thesis by simp
    qed
    then have "c \<notin> set (drop j xs)" by (rule Cons.IH)
    then show ?thesis using Suc by simp
  qed
qed

lemma splitext_concat: "fst (splitext p) @ snd (splitext p) = p"
  by (simp add: splitext_def Let_def)

lemma splitext_ext:
  "snd (splitext p) = [] \<or>
   (hd (snd (splitext p)) = CHR ''.'' \<and> CHR ''.'' \<notin> set (tl (snd (splitext p))) \<and>
    CHR ''/'' \<notin> set (snd (splitext p)))"
proof (cases "rfind CHR ''/'' p < rfind CHR ''.'' p \<and>
    splitext_loop p (nat (rfind CHR ''/'' p + 1)) (nat (rfind CHR ''.'' p))")
  case False
  then have "snd (splitext p) = []"
    unfolding splitext_def Let_def by (simp only: if_False snd_conv)
  then show ?thesis by simp
next
  case True
  define k where "k = nat (rfind CHR ''.'' p)"
  have lo: "0 \<le> rfind CHR ''.'' p"
    using True rfind_lower [of "CHR ''/''" p] by linarith
  have klt: "k < length p"
    using rfind_upper [of "CHR ''.''" p] lo by (simp add: k_def)
  have ext: "snd (splitext p) = drop k p"
    using True by (simp add: splitext_def Let_def k_def)
  have hd: "hd (drop k p) = CHR ''.''"
    using rfind_hit [OF lo] klt by (simp add: hd_drop_conv_nth k_def)
  have "rfind CHR ''.'' p < int (Suc k)"
    using lo by (simp add: k_def)
  then have "CHR ''.'' \<notin> set (drop (Suc k) p)"
    by (rule rfind_after)
  then have tl: "CHR ''.'' \<notin> set (tl (drop k p))"
    by (simp add: drop_Suc tl_drop)
  have "rfind CHR ''/'' p < int k"
    using True lo by (simp add: k_def)
  then have sep: "CHR ''/'' \<notin> set (drop k p)"
    by (rule rfind_after)
  show ?thesis using ext hd tl sep by simp
qed


lemma splitext_photo: "splitext ''photo.png'' = (''photo'', ''.png'')"
  by code_simp

subsection \<open>The example runs, evaluated\<close>

lemma splitext_broken: "splitext ''broken.png'' = (''broken'', ''.png'')"
  by code_simp

lemma splitext_header: "splitext ''header.png'' = (''header'', ''.png'')"
  by code_simp

lemma splitext_cut: "splitext ''cut.png'' = (''cut'', ''.png'')"
  by code_simp

lemma splitext_out: "splitext ''out'' = (''out'', [])"
  by code_simp

lemmas eval_defs =
  run_defs example_defs splitext_photo splitext_broken splitext_header splitext_cut splitext_out

lemma tmp0:
  "fst (mkdtemp env_ok world0) = Inr ''/tmp/tmpk3x9''"
  "fst (mkdtemp env_tool_fails world0) = Inr ''/tmp/tmpk3x9''"
  "fst (mkdtemp env_no_tool world0) = Inr ''/tmp/tmpk3x9''"
  "fst (mkdtemp env_rmdir_refused world0) = Inr ''/tmp/tmpk3x9''"
  "fst (mkdtemp env_tool_fails_rmdir_refused world0) = Inr ''/tmp/tmpk3x9''"
  by (simp_all add: mkdtemp_def entry_at_def example_defs)

lemma bmp0: "path_join ''/tmp/tmpk3x9'' ''temp.bmp'' = ''/tmp/tmpk3x9/temp.bmp''"
  by (simp add: path_join_def)

lemma fresh0:
  "entry_at env_ok (snd (mkdtemp env_ok world0)) (path_join ''/tmp/tmpk3x9'' ''temp.bmp'') = None"
  "entry_at env_tool_fails (snd (mkdtemp env_tool_fails world0))
     (path_join ''/tmp/tmpk3x9'' ''temp.bmp'') = None"
  "entry_at env_no_tool (snd (mkdtemp env_no_tool world0))
     (path_join ''/tmp/tmpk3x9'' ''temp.bmp'') = None"
  by (simp_all add: bmp0 mkdtemp_def entry_at_def put_entry_def example_defs)

lemma photo0:
  "entry_at env_ok world0 ''photo.png'' = Some (File (Raster rgb_photo))"
  "entry_at env_tool_fails world0 ''photo.png'' = Some (File (Raster rgb_photo))"
  "entry_at env_no_tool world0 ''photo.png'' = Some (File (Raster rgb_photo))"
  by (simp_all add: entry_at_def example_defs)

lemma whole0:
  "\<not> unreadable env_ok ''photo.png''"
  "\<not> unreadable env_tool_fails ''photo.png''"
  "\<not> unreadable env_no_tool ''photo.png''"
  "\<not> truncated rgb_photo"
  by (simp_all add: example_defs)

lemma art0: "entry_at env_ok world0 ''art.png'' = Some (File (Raster gray_art))"
  by (simp add: entry_at_def example_defs)

lemma exists0:
  "path_exists env_ok world0 ''photo.png''"
  "path_exists env_ok world0 ''broken.png''"
  "path_exists env_ok world0 ''out''"
  "path_exists env_rmdir_refused world0 ''photo.png''"
  "path_exists env_tool_fails_rmdir_refused world0 ''photo.png''"
  by (simp_all add: path_exists_def entry_at_def example_defs)

lemma gray0:
  "to_grayscale env_ok rgb_photo =
     Inr \<lparr>mode = ''L'', dims = (1, 1), pixels = [18], truncated = False\<rparr>"
  "to_grayscale env_tool_fails rgb_photo =
     Inr \<lparr>mode = ''L'', dims = (1, 1), pixels = [18], truncated = False\<rparr>"
  "to_grayscale env_no_tool rgb_photo =
     Inr \<lparr>mode = ''L'', dims = (1, 1), pixels = [18], truncated = False\<rparr>"
  by (simp_all add: to_grayscale_def image_convert_def image_load_def example_defs)

lemma staged_photo:
  "step1_bitmap env_ok ''photo.png'' ''/tmp/tmpk3x9'' (snd (mkdtemp env_ok world0)) =
     (Inr ''/tmp/tmpk3x9/temp.bmp'',
      snd (step1_bitmap env_ok ''photo.png'' ''/tmp/tmpk3x9'' (snd (mkdtemp env_ok world0))))"
  by (simp add: eval_defs)

lemma staged_art:
  "step1_bitmap env_ok ''art.png'' ''/tmp/tmpk3x9'' (snd (mkdtemp env_ok world0)) =
     (Inr ''/tmp/tmpk3x9/temp.bmp'',
      snd (step1_bitmap env_ok ''art.png'' ''/tmp/tmpk3x9'' (snd (mkdtemp env_ok world0))))"
  by (simp add: eval_defs)

lemma staged_bitmaps:
  "entry_at env_ok
     (snd (step1_bitmap env_ok ''photo.png'' ''/tmp/tmpk3x9'' (snd (mkdtemp env_ok world0))))
     ''/tmp/tmpk3x9/temp.bmp'' =
     Some (File (Raster \<lparr>mode = ''L'', dims = (1, 1), pixels = [18], truncated = False\<rparr>))"
  "entry_at env_ok
     (snd (step1_bitmap env_ok ''art.png'' ''/tmp/tmpk3x9'' (snd (mkdtemp env_ok world0))))
     ''/tmp/tmpk3x9/temp.bmp'' = Some (File (Raster gray_art))"
  by (simp_all add: eval_defs)

lemma kept_bitmaps:
  "entry_at env_ok (snd (png_to_svg env_ok ''photo.png'' None True world0))
     ''/tmp/tmpk3x9/temp.bmp'' =
     Some (File (Raster \<lparr>mode = ''L'', dims = (1, 1), pixels = [18], truncated = False\<rparr>))"
  "entry_at env_ok (snd (png_to_svg env_ok ''art.png'' (Some ''out/result.svg'') True world0))
     ''/tmp/tmpk3x9/temp.bmp'' = Some (File (Raster gray_art))"
  by (simp_all add: eval_defs)

lemma run_photo: "fst (png_to_svg env_ok ''photo.png'' None False world0) = Inr ''photo.svg''"
  by (simp add: eval_defs)

lemma run_photo_kept:
  "entry_at env_ok (snd (png_to_svg env_ok ''photo.png'' None True world0)) ''/tmp/tmpk3x9'' =
     Some Dir"
  "path_exists env_ok (snd (png_to_svg env_ok ''photo.png'' None True world0))
     ''/tmp/tmpk3x9/temp.bmp''"
  by (simp_all add: eval_defs)

lemma run_photo_clean:
  "entry_at env_ok (snd (png_to_svg env_ok ''photo.png'' None False world0)) ''/tmp/tmpk3x9'' = None"
  "entry_at env_ok (snd (png_to_svg env_ok ''photo.png'' None False world0))
     ''/tmp/tmpk3x9/temp.bmp'' = None"
  "entry_at env_ok (snd (png_to_svg env_ok ''photo.png'' None False world0)) ''photo.png'' =
     Some (File (Raster rgb_photo))"
  by (simp_all add: eval_defs)

lemma run_tool_fails:
  "fst (png_to_svg env_tool_fails ''photo.png'' None False world0) =
     Inl (CalledProcessError 1
            [''potrace'', ''--svg'', ''--output'', ''photo.svg'', ''/tmp/tmpk3x9/temp.bmp''])"
  "procs (snd (png_to_svg env_tool_fails ''photo.png'' None False world0)) =
     [[''potrace'', ''--svg'', ''--output'', ''photo.svg'', ''/tmp/tmpk3x9/temp.bmp'']]"
  "entry_at env_tool_fails (snd (png_to_svg env_tool_fails ''photo.png'' None False world0))
     ''photo.svg'' = Some (File (Bytes ''<svg''))"
  "entry_at env_tool_fails (snd (png_to_svg env_tool_fails ''photo.png'' None False world0))
     ''/tmp/tmpk3x9'' = None"
  "entry_at env_tool_fails (snd (png_to_svg env_tool_fails ''photo.png'' None False world0))
     ''/tmp/tmpk3x9/temp.bmp'' = None"
  by (simp_all add: eval_defs)

lemma run_no_tool:
  "fst (png_to_svg env_no_tool ''photo.png'' None False world0) = Inl (FileNotFoundError ''potrace'')"
  "procs (snd (png_to_svg env_no_tool ''photo.png'' None False world0)) = []"
  "entry_at env_no_tool (snd (png_to_svg env_no_tool ''photo.png'' None False world0))
     ''/tmp/tmpk3x9'' = None"
  "entry_at env_no_tool (snd (png_to_svg env_no_tool ''photo.png'' None False world0))
     ''/tmp/tmpk3x9/temp.bmp'' = None"
  by (simp_all add: eval_defs)

lemma run_broken_kept:
  "fst (png_to_svg env_ok ''broken.png'' None True world0) = Inl (UnidentifiedImageError ''broken.png'')"
  "entry_at env_ok (snd (png_to_svg env_ok ''broken.png'' None True world0)) ''/tmp/tmpk3x9'' =
     Some Dir"
  "entry_at env_ok (snd (png_to_svg env_ok ''broken.png'' None True world0))
     ''/tmp/tmpk3x9/temp.bmp'' = None"
  by (simp_all add: eval_defs)

lemma run_broken:
  "fst (png_to_svg env_ok ''broken.png'' None False world0) = Inl (UnidentifiedImageError ''broken.png'')"
  "procs (snd (png_to_svg env_ok ''broken.png'' None False world0)) = []"
  "entry_at env_ok (snd (png_to_svg env_ok ''broken.png'' None False world0)) ''/tmp/tmpk3x9'' = None"
  "entry_at env_ok (snd (png_to_svg env_ok ''broken.png'' None False world0))
     ''/tmp/tmpk3x9/temp.bmp'' = None"
  by (simp_all add: eval_defs)

lemma run_header:
  "fst (png_to_svg env_ok ''header.png'' None False world0) = Inl (OSError ''broken PNG file'')"
  "entry_at env_ok (snd (png_to_svg env_ok ''header.png'' None False world0)) ''/tmp/tmpk3x9'' = None"
  by (simp_all add: eval_defs)

lemma run_cut:
  "fst (png_to_svg env_ok ''cut.png'' None False world0) = Inl (OSError ''image file is truncated'')"
  "entry_at env_ok (snd (png_to_svg env_ok ''cut.png'' None False world0)) ''/tmp/tmpk3x9'' = None"
  "entry_at env_ok (snd (png_to_svg env_ok ''cut.png'' None False world0))
     ''/tmp/tmpk3x9/temp.bmp'' = None"
  by (simp_all add: eval_defs)

lemma run_broken_refused:
  "fst (png_to_svg env_rmdir_refused ''broken.png'' None False world0) =
     Inl (UnidentifiedImageError ''broken.png'')"
  "entry_at env_rmdir_refused (snd (png_to_svg env_rmdir_refused ''broken.png'' None False world0))
     ''/tmp/tmpk3x9'' = Some Dir"
  "stdout (snd (png_to_svg env_rmdir_refused ''broken.png'' None False world0)) =
     [ConversionError (UnidentifiedImageError ''broken.png''),
      CleanupWarning (PermissionError ''/tmp/tmpk3x9'')]"
  by (simp_all add: eval_defs)


lemma run_refused:
  "fst (png_to_svg env_rmdir_refused ''photo.png'' None False world0) = Inr ''photo.svg''"
  "stdout (snd (png_to_svg env_rmdir_refused ''photo.png'' None False world0)) =
     [Converted ''photo.png'' ''photo.svg'', CleanupWarning (PermissionError ''/tmp/tmpk3x9'')]"
  "fst (png_to_svg env_tool_fails_rmdir_refused ''photo.png'' None False world0) =
     Inl (CalledProcessError 1
            [''potrace'', ''--svg'', ''--output'', ''photo.svg'', ''/tmp/tmpk3x9/temp.bmp''])"
  "stdout (snd (png_to_svg env_tool_fails_rmdir_refused ''photo.png'' None False world0)) =
     [ConversionError (CalledProcessError 1
        [''potrace'', ''--svg'', ''--output'', ''photo.svg'', ''/tmp/tmpk3x9/temp.bmp'']),
      CleanupWarning (PermissionError ''/tmp/tmpk3x9'')]"
  "entry_at env_tool_fails_rmdir_refused
     (snd (png_to_svg env_tool_fails_rmdir_refused ''photo.png'' None False world0))
     ''/tmp/tmpk3x9'' = Some Dir"
  by (simp_all add: eval_defs)

lemma run_overwrite:
  "fst (png_to_svg env_ok ''photo.png'' (Some ''photo.png'') False world0) = Inr ''photo.png''"
  "entry_at env_ok (snd (png_to_svg env_ok ''photo.png'' (Some ''photo.png'') False world0))
     ''photo.png'' = Some (File (Bytes ''<svg/>''))"
  "fst (png_to_svg env_alias ''photo.png'' (Some ''./photo.png'') False world0) = Inr ''./photo.png''"
  "entry_at env_alias (snd (png_to_svg env_alias ''photo.png'' (Some ''./photo.png'') False world0))
     ''photo.png'' = Some (File (Bytes ''<svg/>''))"
  by (simp_all add: eval_defs)

subsection \<open>The returned path\<close>

text \<open>
  C1. Whenever \<^verbatim>\<open>png_to_svg\<close> returns (no exception), the returned path is the caller's
  output path if one was given. If none was given, the input path splits as
  \<open>root @ ext\<close>, where \<open>ext\<close> is the file extension in the sense of
  \<^verbatim>\<open>os.path.splitext\<close> (empty, or a dot followed by characters that are neither a dot
  nor a separator), and the returned path is \<open>root @ ''.svg''\<close>: the extension is
  replaced by \<^verbatim>\<open>.svg\<close>. The witness is \<^verbatim>\<open>photo.png\<close>, which yields \<^verbatim>\<open>photo.svg\<close>.
\<close>

theorem png_to_svg_returns_output_path:
  assumes "fst (png_to_svg env input_file output_file keep_temp_files w) = Inr p"
  shows "(case output_file of
            Some out \<Rightarrow> p = out
          | None \<Rightarrow>
              (\<exists>root ext. splitext input_file = (root, ext) \<and> input_file = root @ ext \<and>
                 p = root @ ''.svg'' \<and>
                 (ext = [] \<or>
                  (hd ext = CHR ''.'' \<and> CHR ''.'' \<notin> set (tl ext) \<and> CHR ''/'' \<notin> set ext))))"
proof (cases output_file)
  case (Some out)
  then show ?thesis using png_to_svg_value [OF assms] by (simp add: resolve_output_def)
next
  case None
  obtain root ext where re: "splitext input_file = (root, ext)"
    by (cases "splitext input_file")
  have "input_file = root @ ext"
    using splitext_concat [of input_file] re by simp
  moreover have "p = root @ ''.svg''"
    using png_to_svg_value [OF assms] None re by (simp add: resolve_output_def)
  moreover have "ext = [] \<or>
      (hd ext = CHR ''.'' \<and> CHR ''.'' \<notin> set (tl ext) \<and> CHR ''/'' \<notin> set ext)"
    using splitext_ext [of input_file] re by simp
  ultimately show ?thesis using None re by simp
qed

theorem png_to_svg_returns_output_path_witness:
  "fst (png_to_svg env_ok ''photo.png'' None False world0) = Inr ''photo.svg'' \<and>
   (\<exists>root ext. splitext ''photo.png'' = (root, ext) \<and> ''photo.png'' = root @ ext \<and>
      ''photo.svg'' = root @ ''.svg'' \<and>
      (ext = [] \<or>
       (hd ext = CHR ''.'' \<and> CHR ''.'' \<notin> set (tl ext) \<and> CHR ''/'' \<notin> set ext)))"
  using png_to_svg_returns_output_path [OF run_photo] run_photo by simp

subsection \<open>The intermediate bitmap\<close>

text \<open>
  C2. Let the input be a file holding an image \<open>img\<close>, and let step 1 of a call (open,
  normalise, save) complete in the temporary directory \<open>d\<close>. Then the bitmap it has
  written is \<^verbatim>\<open>temp.bmp\<close> inside \<open>d\<close> and holds an image \<open>g\<close> of mode \<open>''L''\<close> with the
  dimensions of \<open>img\<close>: if \<open>img\<close> already had mode \<open>''L''\<close> then \<open>g\<close> is \<open>img\<close> itself, pixel
  for pixel, and otherwise \<open>g\<close> is what \<^verbatim>\<open>img.convert('L')\<close> returned. With retention
  requested the same bitmap is still there after the whole call (the output path naming
  another file).
\<close>

theorem bitmap_is_grayscale:
  assumes input: "entry_at env w input_file = Some (File (Raster img))"
    and dir: "fst (mkdtemp env w) = Inr d"
    and st: "step1_bitmap env input_file d (snd (mkdtemp env w)) = (Inr bmp, w2)"
  shows "bmp = path_join d ''temp.bmp'' \<and>
    (\<exists>g. entry_at env w2 bmp = Some (File (Raster g)) \<and> mode g = ''L'' \<and> dims g = dims img \<and>
       (if mode img = ''L'' then g = img else image_convert env ''L'' img = Inr g)) \<and>
    (\<not> same_file env bmp (resolve_output input_file output_file) \<longrightarrow>
       entry_at env (snd (png_to_svg env input_file output_file True w)) bmp = entry_at env w2 bmp)"
proof -
  define w1 where "w1 = put_entry env d (Some Dir) w"
  define out where "out = resolve_output input_file output_file"
  have w1: "snd (mkdtemp env w) = w1"
    using mkdtemp_Inr [OF dir] by (simp add: w1_def)
  have ex: "path_exists env w input_file" using input by (simp add: path_exists_def)
  have in1: "entry_at env w1 input_file = Some (File (Raster img))"
    using new_dir_other [OF dir ex] input by (simp add: w1_def world_simps)
  from step1_Inr [OF st [unfolded w1]] obtain img' g where
    b: "bmp = path_join d ''temp.bmp''" and
    i: "entry_at env w1 input_file = Some (File (Raster img'))" and
    g: "to_grayscale env img' = Inr g" and
    w2: "w2 = put_entry env bmp (Some (File (Raster g))) w1"
    by blast
  have img: "img' = img" using i in1 by simp
  have fw2: "entry_at env w2 bmp = Some (File (Raster g))" using w2 by (simp add: world_simps)
  have md: "mode g = ''L'' \<and> dims g = dims img"
    using to_grayscale_mode [OF g] img by simp
  have cv: "(if mode img = ''L'' then g = img else image_convert env ''L'' img = Inr g)"
    using g img by (auto simp: to_grayscale_def split: if_splits)
  have keep: "entry_at env (snd (png_to_svg env input_file output_file True w)) bmp =
      entry_at env w2 bmp"
    if ne: "\<not> same_file env bmp out"
  proof -
    have "entry_at env (snd (png_to_svg env input_file output_file True w)) bmp =
        entry_at env (snd (try_block env input_file out d w1)) bmp"
      using png_to_svg_phases [OF ex dir, of output_file True]
      by (simp add: finally_keep except_entry w1_def out_def)
    also have "\<dots> = entry_at env (snd (subprocess_run env out bmp w2)) bmp"
      using st [unfolded w1]
      by (simp add: try_block_def world_simps split: prod.splits sum.splits)
    also have "\<dots> = entry_at env w2 bmp"
      using run_frame [OF ne, of bmp w2] by simp
    finally show ?thesis .
  qed
  show ?thesis using b fw2 md cv keep by (auto simp: out_def)
qed

theorem bitmap_is_grayscale_witness:
  "entry_at env_ok
     (snd (step1_bitmap env_ok ''photo.png'' ''/tmp/tmpk3x9'' (snd (mkdtemp env_ok world0))))
     ''/tmp/tmpk3x9/temp.bmp'' =
     Some (File (Raster \<lparr>mode = ''L'', dims = (1, 1), pixels = [18], truncated = False\<rparr>)) \<and>
   entry_at env_ok (snd (png_to_svg env_ok ''photo.png'' None True world0))
     ''/tmp/tmpk3x9/temp.bmp'' =
     Some (File (Raster \<lparr>mode = ''L'', dims = (1, 1), pixels = [18], truncated = False\<rparr>)) \<and>
   entry_at env_ok
     (snd (step1_bitmap env_ok ''art.png'' ''/tmp/tmpk3x9'' (snd (mkdtemp env_ok world0))))
     ''/tmp/tmpk3x9/temp.bmp'' = Some (File (Raster gray_art)) \<and>
   entry_at env_ok (snd (png_to_svg env_ok ''art.png'' (Some ''out/result.svg'') True world0))
     ''/tmp/tmpk3x9/temp.bmp'' = Some (File (Raster gray_art))"
  using bitmap_is_grayscale [OF photo0(1) tmp0(1) staged_photo, of None]
    bitmap_is_grayscale [OF art0 tmp0(1) staged_art, of "Some ''out/result.svg''"]
  by (simp (no_asm) only: staged_bitmaps kept_bitmaps simp_thms)

subsection \<open>A tracer that exits with a non-zero status\<close>

text \<open>
  C3, as the code has it. The claim says that, absent retention, the scratch directory is
  cleaned up before the error of the tracer propagates. The cleanup of lines 103 to 109 is
  best effort: when the operating system refuses \<^verbatim>\<open>os.rmdir\<close>, the refusal is caught and
  printed as a warning, the \<^verbatim>\<open>CalledProcessError\<close> propagates, and the directory is
  still there.
\<close>

theorem tool_failure_with_rmdir_refused:
  "fst (png_to_svg env_tool_fails_rmdir_refused ''photo.png'' None False world0) =
     Inl (CalledProcessError 1
            [''potrace'', ''--svg'', ''--output'', ''photo.svg'', ''/tmp/tmpk3x9/temp.bmp'']) \<and>
   entry_at env_tool_fails_rmdir_refused
     (snd (png_to_svg env_tool_fails_rmdir_refused ''photo.png'' None False world0))
     ''/tmp/tmpk3x9'' = Some Dir \<and>
   stdout (snd (png_to_svg env_tool_fails_rmdir_refused ''photo.png'' None False world0)) =
     [ConversionError (CalledProcessError 1
        [''potrace'', ''--svg'', ''--output'', ''photo.svg'', ''/tmp/tmpk3x9/temp.bmp'']),
      CleanupWarning (PermissionError ''/tmp/tmpk3x9'')]"
  by (simp (no_asm) only: run_refused simp_thms)

text \<open>
  C3, amended. Let the call reach the tracer (the input holds a complete image that can be
  read, the temporary directory \<open>d\<close> is created and is empty, normalising and saving work,
  \<^verbatim>\<open>potrace\<close> is installed) and let the tracer exit with status \<open>rc \<noteq> 0\<close>. Then the call
  raises \<^verbatim>\<open>CalledProcessError\<close> carrying \<open>rc\<close> and the command line; exactly one process
  was spawned (no retry); whatever the tracer left in the output file is still there after the
  call (no rollback); and, absent retention, the best-effort cleanup has run before the
  exception leaves the call: the bitmap and the directory are gone, unless a removal itself
  failed, in which case a warning follows the error message. They are gone whenever the
  operating system carries the removals out.
\<close>

theorem tool_failure:
  assumes input: "entry_at env w input_file = Some (File (Raster img))"
    and whole: "\<not> unreadable env input_file" "\<not> truncated img"
    and dir: "fst (mkdtemp env w) = Inr d"
    and gray: "to_grayscale env img = Inr g"
    and fresh: "entry_at env (snd (mkdtemp env w)) (path_join d ''temp.bmp'') = None"
    and save: "save_fault env (path_join d ''temp.bmp'') = None"
    and tool: "potrace env = Some tool"
    and exit: "tool (Some (File (Raster g))) = (rc, written)"
    and nz: "rc \<noteq> 0"
  shows "(let out = resolve_output input_file output_file;
              bmp = path_join d ''temp.bmp'';
              e = CalledProcessError rc (potrace_argv out bmp);
              (r, w') = png_to_svg env input_file output_file keep_temp_files w
          in r = Inl e \<and> returncode e = Some rc \<and>
             procs w' = procs w @ [potrace_argv out bmp] \<and>
             (\<not> same_file env out d \<and> \<not> same_file env out bmp \<and>
              entry_at env w out \<noteq> Some Dir \<longrightarrow>
                entry_at env w' out =
                  (case written of None \<Rightarrow> entry_at env w out | Some c \<Rightarrow> Some (File c))) \<and>
             (\<not> keep_temp_files \<longrightarrow>
                (entry_at env w' d = None \<and> entry_at env w' bmp = None \<and>
                 stdout w' = stdout w @ [ConversionError e]) \<or>
                (\<exists>ce. stdout w' = stdout w @ [ConversionError e, CleanupWarning ce])) \<and>
             (\<not> keep_temp_files \<and> remove_fault env bmp = None \<and> rmdir_fault env d = None \<longrightarrow>
                entry_at env w' d = None \<and> entry_at env w' bmp = None))"
proof -
  define out where "out = resolve_output input_file output_file"
  define bmp where "bmp = path_join d ''temp.bmp''"
  define e where "e = CalledProcessError rc (potrace_argv out bmp)"
  define w1 where "w1 = put_entry env d (Some Dir) w"
  define t where "t = try_block env input_file out d w1"
  define w3 where "w3 = except_block (fst t) (snd t)"
  have ex: "path_exists env w input_file" using input by (simp add: path_exists_def)
  note bf = before_finally [OF ex dir fresh t_def [unfolded out_def w1_def] w3_def,
      folded out_def bmp_def]
  have nd: "\<not> same_file env bmp d" "entry_at env w bmp = None"
    using new_dir_empty [OF dir fresh] by (simp_all add: bmp_def)
  have tb: "t = (case subprocess_run env out bmp
                        (put_entry env bmp (Some (File (Raster g))) w1) of
                   (Inl e, w2) \<Rightarrow> (Inl e, w2)
                 | (Inr u, w2) \<Rightarrow> (Inr out, say (Converted input_file out) w2))"
    using after_step1 [OF input whole dir gray fresh save, of out]
    by (simp add: t_def w1_def bmp_def)
  have seen: "entry_at env (put_entry env bmp (Some (File (Raster g))) w1) bmp =
      Some (File (Raster g))"
    by (simp add: world_simps)
  have r: "fst t = Inl e"
    using tool exit nz by (simp add: tb subprocess_run_def seen Let_def e_def)
  have pr: "procs (snd t) = procs w @ [potrace_argv out bmp]"
    using tool exit nz
    by (simp add: tb subprocess_run_def seen Let_def w1_def world_simps split: option.splits)
  have outc: "entry_at env (snd t) out =
      (case written of None \<Rightarrow> entry_at env w out | Some c \<Rightarrow> Some (File c))"
    if "\<not> same_file env out d" "\<not> same_file env out bmp" "entry_at env w out \<noteq> Some Dir"
    using tool exit nz that
    by (simp add: tb subprocess_run_def seen Let_def w1_def world_simps split: option.splits)
  have so: "stdout w3 = stdout w @ [ConversionError e]"
    using bf(4) r by simp
  have clean: "entry_at env (finally_block env d False w3) d = None \<and>
      entry_at env (finally_block env d False w3) bmp = None"
    if "remove_fault env bmp = None" "rmdir_fault env d = None"
    using finally_ok [of env w3 d] that bf(2,3) by (simp add: bmp_def)
  have p1: "procs (finally_block env d keep_temp_files w3) = procs w @ [potrace_argv out bmp]"
    using pr bf(5) by (simp add: finally_procs)
  have p2: "entry_at env (finally_block env d keep_temp_files w3) out =
      (case written of None \<Rightarrow> entry_at env w out | Some c \<Rightarrow> Some (File c))"
    if "\<not> same_file env out d" "\<not> same_file env out bmp" "entry_at env w out \<noteq> Some Dir"
    using outc [OF that] finally_frame [of env out d keep_temp_files w3] that
    by (simp add: w3_def except_entry bmp_def)
  have p3: "(entry_at env (finally_block env d False w3) d = None \<and>
             entry_at env (finally_block env d False w3) bmp = None \<and>
             stdout (finally_block env d False w3) = stdout w @ [ConversionError e]) \<or>
            (\<exists>ce. stdout (finally_block env d False w3) =
               stdout w @ [ConversionError e, CleanupWarning ce])"
    using finally_cases [of env d w3] by (simp add: so bmp_def)
  have rc: "returncode e = Some rc" by (simp add: e_def)
  show ?thesis
    unfolding Let_def out_def [symmetric] bmp_def [symmetric] e_def [symmetric] bf(1)
    using r rc p1 p2 p3 clean by (cases keep_temp_files) auto
qed

theorem tool_failure_witness:
  "fst (png_to_svg env_tool_fails ''photo.png'' None False world0) =
     Inl (CalledProcessError 1
            [''potrace'', ''--svg'', ''--output'', ''photo.svg'', ''/tmp/tmpk3x9/temp.bmp'']) \<and>
   procs (snd (png_to_svg env_tool_fails ''photo.png'' None False world0)) =
     [[''potrace'', ''--svg'', ''--output'', ''photo.svg'', ''/tmp/tmpk3x9/temp.bmp'']] \<and>
   entry_at env_tool_fails (snd (png_to_svg env_tool_fails ''photo.png'' None False world0))
     ''photo.svg'' = Some (File (Bytes ''<svg'')) \<and>
   entry_at env_tool_fails (snd (png_to_svg env_tool_fails ''photo.png'' None False world0))
     ''/tmp/tmpk3x9'' = None \<and>
   entry_at env_tool_fails (snd (png_to_svg env_tool_fails ''photo.png'' None False world0))
     ''/tmp/tmpk3x9/temp.bmp'' = None"
proof -
  have save: "save_fault env_tool_fails (path_join ''/tmp/tmpk3x9'' ''temp.bmp'') = None"
    by (simp add: example_defs)
  have tool: "potrace env_tool_fails = Some tracer_failing"
    by (simp add: example_defs)
  have exit: "tracer_failing
      (Some (File (Raster \<lparr>mode = ''L'', dims = (1, 1), pixels = [18], truncated = False\<rparr>))) =
      (1, Some (Bytes ''<svg''))"
    by (simp add: tracer_failing_def)
  have nz: "(1::int) \<noteq> 0" by simp
  show ?thesis
    using tool_failure [OF photo0(2) whole0(2) whole0(4) tmp0(2) gray0(2) fresh0(2) save tool
        exit nz, of None False]
    by (simp (no_asm) only: run_tool_fails simp_thms)
qed

subsection \<open>A missing input\<close>

text \<open>
  C4. When the input path names nothing that exists, \<^verbatim>\<open>png_to_svg\<close> raises
  \<^verbatim>\<open>FileNotFoundError\<close> for that path and leaves the world exactly as it was: no
  temporary directory has been created (whatever \<^verbatim>\<open>mkdtemp\<close> would have done), nothing
  was printed and no process was spawned. The check of line 64 comes before line 72.
\<close>

theorem png_to_svg_missing_input:
  "\<not> path_exists env w input_file \<Longrightarrow>
   png_to_svg env input_file output_file keep_temp_files w =
     (Inl (FileNotFoundError input_file), w)"
  by (simp add: png_to_svg_def)

theorem png_to_svg_missing_input_witness:
  "\<not> path_exists env_ok world0 ''nothere.png'' \<and>
   png_to_svg env_ok ''nothere.png'' None False world0 =
     (Inl (FileNotFoundError ''nothere.png''), world0)"
proof -
  have h: "\<not> path_exists env_ok world0 ''nothere.png''"
    by (simp add: path_exists_def entry_at_def example_defs)
  show ?thesis using h png_to_svg_missing_input [OF h] by simp
qed

subsection \<open>The scratch directory after a call\<close>

text \<open>
  C5, as the code has it. The claim says that with retention requested the bitmap still
  exists after every call that created the scratch directory, successful or not. A call
  that fails before the bitmap is saved never writes one: for an input that exists but
  holds no image, the directory is kept and is empty.
\<close>

theorem retained_scratch_without_bitmap:
  "path_exists env_ok world0 ''broken.png'' \<and>
   entry_at env_ok world0 ''/tmp/tmpk3x9'' = None \<and>
   fst (png_to_svg env_ok ''broken.png'' None True world0) =
     Inl (UnidentifiedImageError ''broken.png'') \<and>
   entry_at env_ok (snd (png_to_svg env_ok ''broken.png'' None True world0)) ''/tmp/tmpk3x9'' =
     Some Dir \<and>
   \<not> path_exists env_ok (snd (png_to_svg env_ok ''broken.png'' None True world0))
     ''/tmp/tmpk3x9/temp.bmp''"
proof -
  have a: "entry_at env_ok world0 ''/tmp/tmpk3x9'' = None"
    by (simp add: entry_at_def example_defs)
  have b: "\<not> path_exists env_ok (snd (png_to_svg env_ok ''broken.png'' None True world0))
      ''/tmp/tmpk3x9/temp.bmp''"
    by (simp add: path_exists_def run_broken_kept)
  show ?thesis
    by (simp (no_asm) only: a b exists0 run_broken_kept simp_thms)
qed

text \<open>
  C5, amended. For every call that creates the scratch directory \<open>d\<close> (new, hence empty):
  with retention requested, \<open>d\<close> still exists after the call, the bitmap exists in it if
  step 1 completed (so after a successful conversion and after a failure of the tracer), and
  no bitmap exists if the input could not be opened as an image. Without retention the
  cleanup of C6 has run: the bitmap and the directory are gone, or a cleanup warning is the
  last thing printed; they are gone whenever the operating system carries the removals out.
\<close>

theorem scratch_after_call:
  assumes ex: "path_exists env w input_file"
    and dir: "fst (mkdtemp env w) = Inr d"
    and fresh: "entry_at env (snd (mkdtemp env w)) (path_join d ''temp.bmp'') = None"
  shows "(let bmp = path_join d ''temp.bmp'';
              w' = snd (png_to_svg env input_file output_file keep_temp_files w)
          in (keep_temp_files \<longrightarrow>
                entry_at env w' d = Some Dir \<and>
                (\<not> isl (fst (step1_bitmap env input_file d (snd (mkdtemp env w)))) \<longrightarrow>
                   path_exists env w' bmp) \<and>
                (isl (image_open env w input_file) \<longrightarrow> \<not> path_exists env w' bmp)) \<and>
             (\<not> keep_temp_files \<longrightarrow>
                (entry_at env w' d = None \<and> entry_at env w' bmp = None) \<or>
                (\<exists>ms ce. stdout w' = stdout w @ ms @ [CleanupWarning ce])) \<and>
             (\<not> keep_temp_files \<and> remove_fault env bmp = None \<and> rmdir_fault env d = None \<longrightarrow>
                entry_at env w' d = None \<and> entry_at env w' bmp = None))"
proof -
  define out where "out = resolve_output input_file output_file"
  define bmp where "bmp = path_join d ''temp.bmp''"
  define w1 where "w1 = put_entry env d (Some Dir) w"
  define t where "t = try_block env input_file out d w1"
  define w3 where "w3 = except_block (fst t) (snd t)"
  have m: "snd (mkdtemp env w) = w1" using mkdtemp_Inr [OF dir] by (simp add: w1_def)
  note bf = before_finally [OF ex dir fresh t_def [unfolded out_def w1_def] w3_def,
      folded out_def bmp_def]
  have run: "snd (png_to_svg env input_file output_file keep_temp_files w) =
      finally_block env d keep_temp_files w3"
    using bf(1) by simp
  have clean: "entry_at env (finally_block env d False w3) d = None \<and>
      entry_at env (finally_block env d False w3) bmp = None"
    if "remove_fault env bmp = None" "rmdir_fault env d = None"
    using finally_ok [of env w3 d] that bf(2,3) by (simp add: bmp_def)
  obtain ms where ms: "stdout w3 = stdout w @ ms"
    using bf(4) by (cases "fst t") auto
  have p3: "(entry_at env (finally_block env d False w3) d = None \<and>
             entry_at env (finally_block env d False w3) bmp = None) \<or>
            (\<exists>ms ce. stdout (finally_block env d False w3) = stdout w @ ms @ [CleanupWarning ce])"
    using finally_cases [of env d w3] ms by (auto simp: bmp_def)
  have staged_kept: "path_exists env w3 bmp"
    if s: "\<not> isl (fst (step1_bitmap env input_file d w1))"
  proof -
    obtain b where "fst (step1_bitmap env input_file d w1) = Inr b"
      using s by (cases "fst (step1_bitmap env input_file d w1)") auto
    then obtain w2 where st: "step1_bitmap env input_file d w1 = (Inr b, w2)"
      by (cases "step1_bitmap env input_file d w1") auto
    from step1_Inr [OF st] have b: "b = bmp" and "entry_at env w2 bmp \<noteq> None"
      by (auto simp: bmp_def world_simps)
    then have "entry_at env (snd (subprocess_run env out bmp w2)) bmp \<noteq> None"
      by (rule_tac run_keeps)
    then have "entry_at env (snd t) bmp \<noteq> None"
      using st b by (auto simp: t_def try_block_def world_simps split: prod.splits sum.splits)
    then show ?thesis by (simp add: w3_def except_entry path_exists_def)
  qed
  have absent: "\<not> path_exists env w3 bmp" if o: "isl (image_open env w input_file)"
  proof -
    obtain e where e: "image_open env w input_file = Inl e"
      using o by (auto simp: isl_def)
    have "entry_at env w1 input_file = entry_at env w input_file"
      using new_dir_other [OF dir ex] by (simp add: w1_def world_simps)
    then have "image_open env w1 input_file = Inl e"
      using e image_open_cong [of env w1 input_file w] by simp
    then have "t = (Inl e, w1)" unfolding t_def by (rule try_block_open_fail)
    then show ?thesis using fresh m
      by (simp add: w3_def except_entry path_exists_def bmp_def)
  qed
  show ?thesis
    unfolding Let_def bmp_def [symmetric] run m
    using bf(2) staged_kept absent clean p3 by (cases keep_temp_files) (auto simp: finally_keep)
qed

theorem scratch_after_call_witness:
  "entry_at env_ok (snd (png_to_svg env_ok ''photo.png'' None True world0)) ''/tmp/tmpk3x9'' =
     Some Dir \<and>
   path_exists env_ok (snd (png_to_svg env_ok ''photo.png'' None True world0))
     ''/tmp/tmpk3x9/temp.bmp'' \<and>
   entry_at env_ok (snd (png_to_svg env_ok ''photo.png'' None False world0)) ''/tmp/tmpk3x9'' = None \<and>
   entry_at env_ok (snd (png_to_svg env_ok ''photo.png'' None False world0))
     ''/tmp/tmpk3x9/temp.bmp'' = None \<and>
   entry_at env_ok (snd (png_to_svg env_ok ''broken.png'' None True world0)) ''/tmp/tmpk3x9'' =
     Some Dir \<and>
   entry_at env_ok (snd (png_to_svg env_ok ''broken.png'' None True world0))
     ''/tmp/tmpk3x9/temp.bmp'' = None"
  using scratch_after_call [OF exists0(1) tmp0(1) fresh0(1), of None True]
    scratch_after_call [OF exists0(1) tmp0(1) fresh0(1), of None False]
    scratch_after_call [OF exists0(2) tmp0(1) fresh0(1), of None True]
  by (simp (no_asm) only: run_photo_kept run_photo_clean run_broken_kept simp_thms)

subsection \<open>A cleanup that fails\<close>

text \<open>
  C6. Let a call without retention get its temporary directory, let the \<^verbatim>\<open>try\<close> block end
  with the outcome \<open>r\<close> (the output path, or an exception), and let the cleanup in the
  \<^verbatim>\<open>finally\<close> block raise \<open>ce\<close>. Then the outcome of the call is \<open>r\<close> itself: a
  successful conversion still returns the resolved output path, and an exception of the
  conversion is the one that propagates. The cleanup failure shows only as one more printed
  line, the warning, after everything the conversion printed. The outcome is the one the
  same call has when no removal is ever refused.
\<close>

theorem cleanup_failure_is_a_warning:
  assumes ex: "path_exists env w input_file"
    and dir: "fst (mkdtemp env w) = Inr d"
    and tb: "try_block env input_file (resolve_output input_file output_file) d
               (snd (mkdtemp env w)) = (r, w2)"
    and cl: "cleanup env d (except_block r w2) = (Inl ce, w3)"
  shows "png_to_svg env input_file output_file False w = (r, say (CleanupWarning ce) w3) \<and>
         (isl r \<or> r = Inr (resolve_output input_file output_file)) \<and>
         stdout (say (CleanupWarning ce) w3) = stdout (except_block r w2) @ [CleanupWarning ce] \<and>
         fst (png_to_svg (env\<lparr>remove_fault := (\<lambda>p. None), rmdir_fault := (\<lambda>p. None)\<rparr>)
                input_file output_file False w) = r"
proof -
  have w1: "snd (mkdtemp env w) = put_entry env d (Some Dir) w"
    using mkdtemp_Inr [OF dir] by simp
  have run: "png_to_svg env input_file output_file False w = (r, say (CleanupWarning ce) w3)"
    using png_to_svg_phases [OF ex dir, of output_file False] tb cl
    by (simp add: w1 finally_block_def)
  have val: "isl r \<or> r = Inr (resolve_output input_file output_file)"
  proof (cases r)
    case (Inl e)
    then show ?thesis by simp
  next
    case (Inr p)
    then show ?thesis using try_block_value [of env input_file _ d _ p w2] tb by simp
  qed
  have log: "stdout (say (CleanupWarning ce) w3) = stdout (except_block r w2) @ [CleanupWarning ce]"
    using cleanup_log [of env d "except_block r w2"] cl by (simp add: say_def)
  have "fst (png_to_svg (env\<lparr>remove_fault := (\<lambda>p. None), rmdir_fault := (\<lambda>p. None)\<rparr>)
                input_file output_file False w) = fst (png_to_svg env input_file output_file False w)"
    by (rule faults_irrelevant)
  then show ?thesis using run val log by simp
qed

theorem cleanup_failure_is_a_warning_witness:
  "fst (png_to_svg env_rmdir_refused ''photo.png'' None False world0) = Inr ''photo.svg'' \<and>
   stdout (snd (png_to_svg env_rmdir_refused ''photo.png'' None False world0)) =
     [Converted ''photo.png'' ''photo.svg'', CleanupWarning (PermissionError ''/tmp/tmpk3x9'')] \<and>
   fst (png_to_svg env_tool_fails_rmdir_refused ''photo.png'' None False world0) =
     Inl (CalledProcessError 1
            [''potrace'', ''--svg'', ''--output'', ''photo.svg'', ''/tmp/tmpk3x9/temp.bmp'']) \<and>
   stdout (snd (png_to_svg env_tool_fails_rmdir_refused ''photo.png'' None False world0)) =
     [ConversionError (CalledProcessError 1
        [''potrace'', ''--svg'', ''--output'', ''photo.svg'', ''/tmp/tmpk3x9/temp.bmp'']),
      CleanupWarning (PermissionError ''/tmp/tmpk3x9'')]"
proof -
  define t1 where "t1 = try_block env_rmdir_refused ''photo.png'' (resolve_output ''photo.png'' None)
      ''/tmp/tmpk3x9'' (snd (mkdtemp env_rmdir_refused world0))"
  define t2 where "t2 = try_block env_tool_fails_rmdir_refused ''photo.png''
      (resolve_output ''photo.png'' None) ''/tmp/tmpk3x9''
      (snd (mkdtemp env_tool_fails_rmdir_refused world0))"
  have tb1: "try_block env_rmdir_refused ''photo.png'' (resolve_output ''photo.png'' None)
      ''/tmp/tmpk3x9'' (snd (mkdtemp env_rmdir_refused world0)) = (fst t1, snd t1)"
    by (simp add: t1_def)
  have tb2: "try_block env_tool_fails_rmdir_refused ''photo.png''
      (resolve_output ''photo.png'' None) ''/tmp/tmpk3x9''
      (snd (mkdtemp env_tool_fails_rmdir_refused world0)) = (fst t2, snd t2)"
    by (simp add: t2_def)
  have cl1: "cleanup env_rmdir_refused ''/tmp/tmpk3x9'' (except_block (fst t1) (snd t1)) =
      (Inl (PermissionError ''/tmp/tmpk3x9''),
       snd (cleanup env_rmdir_refused ''/tmp/tmpk3x9'' (except_block (fst t1) (snd t1))))"
    by (simp add: t1_def eval_defs)
  have cl2: "cleanup env_tool_fails_rmdir_refused ''/tmp/tmpk3x9'' (except_block (fst t2) (snd t2)) =
      (Inl (PermissionError ''/tmp/tmpk3x9''),
       snd (cleanup env_tool_fails_rmdir_refused ''/tmp/tmpk3x9'' (except_block (fst t2) (snd t2))))"
    by (simp add: t2_def eval_defs)
  show ?thesis
    using cleanup_failure_is_a_warning [OF exists0(4) tmp0(4) tb1 cl1]
      cleanup_failure_is_a_warning [OF exists0(5) tmp0(5) tb2 cl2]
    by (simp (no_asm) only: run_refused simp_thms)
qed

subsection \<open>A tracer that is not installed\<close>

text \<open>
  C7, as the code has it. The claim puts a missing tracer in the error category of a
  tracer that exits with a non-zero status, carrying an exit status. In the code the spawn
  itself raises \<^verbatim>\<open>FileNotFoundError\<close> for the program name: no process ran, the
  exception has no \<^verbatim>\<open>returncode\<close>, it is not the \<^verbatim>\<open>CalledProcessError\<close> of a non-zero
  exit, and it is the exception class of a missing input file.
\<close>

theorem tool_missing_is_not_a_tool_exit:
  "fst (png_to_svg env_no_tool ''photo.png'' None False world0) = Inl (FileNotFoundError ''potrace'') \<and>
   returncode (FileNotFoundError ''potrace'') = None \<and>
   fst (png_to_svg env_tool_fails ''photo.png'' None False world0) =
     Inl (CalledProcessError 1
            [''potrace'', ''--svg'', ''--output'', ''photo.svg'', ''/tmp/tmpk3x9/temp.bmp'']) \<and>
   returncode (CalledProcessError 1
            [''potrace'', ''--svg'', ''--output'', ''photo.svg'', ''/tmp/tmpk3x9/temp.bmp'']) = Some 1 \<and>
   fst (png_to_svg env_ok ''nothere.png'' None False world0) = Inl (FileNotFoundError ''nothere.png'')"
proof -
  have a: "returncode (FileNotFoundError ''potrace'') = None"
    "returncode (CalledProcessError 1
       [''potrace'', ''--svg'', ''--output'', ''photo.svg'', ''/tmp/tmpk3x9/temp.bmp'']) = Some 1"
    by simp_all
  have b: "fst (png_to_svg env_ok ''nothere.png'' None False world0) =
      Inl (FileNotFoundError ''nothere.png'')"
    by (simp add: png_to_svg_def path_exists_def entry_at_def example_defs)
  show ?thesis
    by (simp (no_asm) only: run_no_tool run_tool_fails a b simp_thms)
qed

text \<open>
  C7, amended. Let the call reach the spawn (the input holds a complete image that can be
  read, the temporary directory \<open>d\<close> is created and is empty, normalising and saving work)
  and let \<^verbatim>\<open>potrace\<close> not be installed. Then the call raises \<^verbatim>\<open>FileNotFoundError\<close>
  naming the program, which carries no exit status; no process was spawned; and, absent
  retention, the cleanup has run as in C3: the bitmap and the directory are gone whenever
  the operating system carries the removals out, and otherwise the warning of C6 follows the
  error message.
\<close>

theorem tool_missing:
  assumes input: "entry_at env w input_file = Some (File (Raster img))"
    and whole: "\<not> unreadable env input_file" "\<not> truncated img"
    and dir: "fst (mkdtemp env w) = Inr d"
    and gray: "to_grayscale env img = Inr g"
    and fresh: "entry_at env (snd (mkdtemp env w)) (path_join d ''temp.bmp'') = None"
    and save: "save_fault env (path_join d ''temp.bmp'') = None"
    and tool: "potrace env = None"
  shows "(let bmp = path_join d ''temp.bmp'';
              e = FileNotFoundError ''potrace'';
              (r, w') = png_to_svg env input_file output_file keep_temp_files w
          in r = Inl e \<and> returncode e = None \<and>
             procs w' = procs w \<and>
             (\<not> keep_temp_files \<longrightarrow>
                (entry_at env w' d = None \<and> entry_at env w' bmp = None \<and>
                 stdout w' = stdout w @ [ConversionError e]) \<or>
                (\<exists>ce. stdout w' = stdout w @ [ConversionError e, CleanupWarning ce])) \<and>
             (\<not> keep_temp_files \<and> remove_fault env bmp = None \<and> rmdir_fault env d = None \<longrightarrow>
                entry_at env w' d = None \<and> entry_at env w' bmp = None))"
proof -
  define out where "out = resolve_output input_file output_file"
  define bmp where "bmp = path_join d ''temp.bmp''"
  define e where "e = FileNotFoundError ''potrace''"
  define w1 where "w1 = put_entry env d (Some Dir) w"
  define t where "t = try_block env input_file out d w1"
  define w3 where "w3 = except_block (fst t) (snd t)"
  have ex: "path_exists env w input_file" using input by (simp add: path_exists_def)
  note bf = before_finally [OF ex dir fresh t_def [unfolded out_def w1_def] w3_def,
      folded out_def bmp_def]
  have tb: "t = (case subprocess_run env out bmp
                        (put_entry env bmp (Some (File (Raster g))) w1) of
                   (Inl e, w2) \<Rightarrow> (Inl e, w2)
                 | (Inr u, w2) \<Rightarrow> (Inr out, say (Converted input_file out) w2))"
    using after_step1 [OF input whole dir gray fresh save, of out]
    by (simp add: t_def w1_def bmp_def)
  have r: "fst t = Inl e"
    using tool by (simp add: tb subprocess_run_def e_def)
  have pr: "procs (snd t) = procs w"
    using tool by (simp add: tb subprocess_run_def w1_def world_simps)
  have so: "stdout w3 = stdout w @ [ConversionError e]"
    using bf(4) r by simp
  have clean: "entry_at env (finally_block env d False w3) d = None \<and>
      entry_at env (finally_block env d False w3) bmp = None"
    if "remove_fault env bmp = None" "rmdir_fault env d = None"
    using finally_ok [of env w3 d] that bf(2,3) by (simp add: bmp_def)
  have p1: "procs (finally_block env d keep_temp_files w3) = procs w"
    using pr bf(5) by (simp add: finally_procs)
  have p3: "(entry_at env (finally_block env d False w3) d = None \<and>
             entry_at env (finally_block env d False w3) bmp = None \<and>
             stdout (finally_block env d False w3) = stdout w @ [ConversionError e]) \<or>
            (\<exists>ce. stdout (finally_block env d False w3) =
               stdout w @ [ConversionError e, CleanupWarning ce])"
    using finally_cases [of env d w3] by (simp add: so bmp_def)
  have rc: "returncode e = None" by (simp add: e_def)
  show ?thesis
    unfolding Let_def bmp_def [symmetric] e_def [symmetric] bf(1)
    using r rc p1 p3 clean by (cases keep_temp_files) auto
qed

theorem tool_missing_witness:
  "fst (png_to_svg env_no_tool ''photo.png'' None False world0) = Inl (FileNotFoundError ''potrace'') \<and>
   procs (snd (png_to_svg env_no_tool ''photo.png'' None False world0)) = [] \<and>
   entry_at env_no_tool (snd (png_to_svg env_no_tool ''photo.png'' None False world0))
     ''/tmp/tmpk3x9'' = None \<and>
   entry_at env_no_tool (snd (png_to_svg env_no_tool ''photo.png'' None False world0))
     ''/tmp/tmpk3x9/temp.bmp'' = None"
proof -
  have save: "save_fault env_no_tool (path_join ''/tmp/tmpk3x9'' ''temp.bmp'') = None"
    by (simp add: example_defs)
  have tool: "potrace env_no_tool = None"
    by (simp add: example_defs)
  show ?thesis
    using tool_missing [OF photo0(3) whole0(3) whole0(4) tmp0(3) gray0(3) fresh0(3) save tool,
        of None False]
    by (simp (no_asm) only: run_no_tool simp_thms)
qed

subsection \<open>An input that cannot be decoded\<close>

text \<open>
  C8, as the code has it. The claim says that, absent retention, the scratch workspace is
  cleaned up before the decoding error propagates. The cleanup is best effort: when the
  operating system refuses \<^verbatim>\<open>os.rmdir\<close>, the refusal is caught and printed as a warning,
  the decoding error propagates, and the directory is still there.
\<close>

theorem decode_failure_with_rmdir_refused:
  "fst (png_to_svg env_rmdir_refused ''broken.png'' None False world0) =
     Inl (UnidentifiedImageError ''broken.png'') \<and>
   entry_at env_rmdir_refused (snd (png_to_svg env_rmdir_refused ''broken.png'' None False world0))
     ''/tmp/tmpk3x9'' = Some Dir \<and>
   stdout (snd (png_to_svg env_rmdir_refused ''broken.png'' None False world0)) =
     [ConversionError (UnidentifiedImageError ''broken.png''),
      CleanupWarning (PermissionError ''/tmp/tmpk3x9'')]"
  by (simp (no_asm) only: run_broken_refused simp_thms)

text \<open>
  C8, amended. Let the input be an existing file that can be read but not decoded: opening
  it raises (\<^verbatim>\<open>UnidentifiedImageError\<close> for bytes no decoder recognises, \<^verbatim>\<open>OSError\<close>
  for a damaged header), or it opens and loading its pixel data raises (\<^verbatim>\<open>OSError\<close>
  for a file cut inside the data, raised by \<^verbatim>\<open>convert\<close> or by \<^verbatim>\<open>save\<close>). Let the
  temporary directory \<open>d\<close> be created (new, hence empty). Then the call raises that
  exception; no bitmap is written and no process is spawned; and, absent retention, the
  best-effort cleanup has run before the exception leaves the call: the directory is gone,
  unless the removal itself failed, in which case a warning follows the error message. It
  is gone whenever the operating system carries the removal out.
\<close>

theorem undecodable_input:
  assumes regular: "entry_at env w input_file = Some (File c)"
    and readable: "\<not> unreadable env input_file"
    and fails: "(case image_open env w input_file of
                   Inl e' \<Rightarrow> e' = e
                 | Inr img \<Rightarrow> image_load img = Inl e)"
    and dir: "fst (mkdtemp env w) = Inr d"
    and fresh: "entry_at env (snd (mkdtemp env w)) (path_join d ''temp.bmp'') = None"
  shows "(let bmp = path_join d ''temp.bmp'';
              (r, w') = png_to_svg env input_file output_file keep_temp_files w
          in r = Inl e \<and>
             (e = UnidentifiedImageError input_file \<or> (\<exists>msg. e = OSError msg)) \<and>
             procs w' = procs w \<and> entry_at env w' bmp = None \<and>
             (\<not> keep_temp_files \<longrightarrow>
                (entry_at env w' d = None \<and>
                 stdout w' = stdout w @ [ConversionError e]) \<or>
                (\<exists>ce. stdout w' = stdout w @ [ConversionError e, CleanupWarning ce])) \<and>
             (\<not> keep_temp_files \<and> rmdir_fault env d = None \<longrightarrow> entry_at env w' d = None))"
proof -
  define bmp where "bmp = path_join d ''temp.bmp''"
  define w3 where "w3 = say (ConversionError e) (put_entry env d (Some Dir) w)"
  have ex: "path_exists env w input_file" using regular by (simp add: path_exists_def)
  have run: "png_to_svg env input_file output_file keep_temp_files w =
      (Inl e, finally_block env d keep_temp_files w3)"
    using decode_failure_run [OF ex fails dir] by (simp add: w3_def)
  have kinds: "e = UnidentifiedImageError input_file \<or> (\<exists>msg. e = OSError msg)"
    using regular readable fails
    by (cases c) (auto simp: image_open_def image_load_def split: if_splits)
  have m: "snd (mkdtemp env w) = put_entry env d (Some Dir) w"
    using mkdtemp_Inr [OF dir] by simp
  have d3: "entry_at env w3 d = Some Dir" by (simp add: w3_def world_simps)
  have b3: "entry_at env w3 bmp = None" using fresh m by (simp add: w3_def world_simps bmp_def)
  have nd: "\<not> same_file env bmp d"
    using new_dir_empty [OF dir fresh] by (simp add: bmp_def)
  have so: "stdout w3 = stdout w @ [ConversionError e]" by (simp add: w3_def say_def world_simps)
  have clean: "entry_at env (finally_block env d False w3) d = None"
    if "rmdir_fault env d = None"
    using finally_ok [of env w3 d] that d3 b3 by (simp add: bmp_def)
  have p1: "procs (finally_block env d keep_temp_files w3) = procs w"
    by (simp add: finally_procs w3_def say_def world_simps)
  have nb: "entry_at env (finally_block env d keep_temp_files w3) bmp = None"
  proof (cases keep_temp_files)
    case True
    then show ?thesis using b3 by (simp add: finally_keep)
  next
    case False
    have "cleanup env d w3 = os_rmdir env d w3"
      using b3 by (simp add: cleanup_def path_exists_def bmp_def)
    moreover have "entry_at env (snd (os_rmdir env d w3)) bmp = None"
      using b3 nd by (auto simp: os_rmdir_def world_simps split: option.splits entry.splits)
    ultimately show ?thesis using False
      by (auto simp: finally_block_def world_simps split: prod.splits sum.splits)
  qed
  have p3: "(entry_at env (finally_block env d False w3) d = None \<and>
             stdout (finally_block env d False w3) = stdout w @ [ConversionError e]) \<or>
            (\<exists>ce. stdout (finally_block env d False w3) =
               stdout w @ [ConversionError e, CleanupWarning ce])"
    using finally_cases [of env d w3] by (auto simp: so)
  show ?thesis
    unfolding Let_def bmp_def [symmetric] run
    using kinds p1 nb p3 clean by (cases keep_temp_files) auto
qed

theorem undecodable_input_witness:
  "fst (png_to_svg env_ok ''broken.png'' None False world0) =
     Inl (UnidentifiedImageError ''broken.png'') \<and>
   procs (snd (png_to_svg env_ok ''broken.png'' None False world0)) = [] \<and>
   entry_at env_ok (snd (png_to_svg env_ok ''broken.png'' None False world0)) ''/tmp/tmpk3x9'' = None \<and>
   fst (png_to_svg env_ok ''header.png'' None False world0) = Inl (OSError ''broken PNG file'') \<and>
   entry_at env_ok (snd (png_to_svg env_ok ''header.png'' None False world0)) ''/tmp/tmpk3x9'' = None \<and>
   fst (png_to_svg env_ok ''cut.png'' None False world0) = Inl (OSError ''image file is truncated'') \<and>
   entry_at env_ok (snd (png_to_svg env_ok ''cut.png'' None False world0)) ''/tmp/tmpk3x9'' = None \<and>
   entry_at env_ok (snd (png_to_svg env_ok ''cut.png'' None False world0))
     ''/tmp/tmpk3x9/temp.bmp'' = None"
proof -
  have f: "entry_at env_ok world0 ''broken.png'' = Some (File (Bytes ''not an image''))"
    "entry_at env_ok world0 ''header.png'' = Some (File (Damaged ''broken PNG file''))"
    "entry_at env_ok world0 ''cut.png'' = Some (File (Raster cut_scan))"
    by (simp_all add: entry_at_def example_defs)
  have r: "\<not> unreadable env_ok ''broken.png''" "\<not> unreadable env_ok ''header.png''"
    "\<not> unreadable env_ok ''cut.png''"
    by (simp_all add: example_defs)
  have e1: "(case image_open env_ok world0 ''broken.png'' of
               Inl e' \<Rightarrow> e' = UnidentifiedImageError ''broken.png''
             | Inr img \<Rightarrow> image_load img = Inl (UnidentifiedImageError ''broken.png''))"
    by (simp add: image_open_def entry_at_def example_defs)
  have e2: "(case image_open env_ok world0 ''header.png'' of
               Inl e' \<Rightarrow> e' = OSError ''broken PNG file''
             | Inr img \<Rightarrow> image_load img = Inl (OSError ''broken PNG file''))"
    by (simp add: image_open_def entry_at_def example_defs)
  have e3: "(case image_open env_ok world0 ''cut.png'' of
               Inl e' \<Rightarrow> e' = OSError ''image file is truncated''
             | Inr img \<Rightarrow> image_load img = Inl (OSError ''image file is truncated''))"
    by (simp add: image_open_def image_load_def entry_at_def example_defs)
  show ?thesis
    using undecodable_input [OF f(1) r(1) e1 tmp0(1) fresh0(1), of None False]
      undecodable_input [OF f(2) r(2) e2 tmp0(1) fresh0(1), of None False]
      undecodable_input [OF f(3) r(3) e3 tmp0(1) fresh0(1), of None False]
    by (simp (no_asm) only: run_broken run_header run_cut simp_thms)
qed

subsection \<open>An input that exists but is no image\<close>



subsection \<open>The input file\<close>

text \<open>
  C10, as the code has it. The claim says the input file is unchanged after every call.
  Nothing in the code keeps the output path apart from the input: when the caller passes
  the input path as the output path, or another spelling of it such as \<^verbatim>\<open>./photo.png\<close>,
  the tracer writes its result over the input file.
\<close>

theorem input_overwritten_when_output_is_input:
  "entry_at env_ok world0 ''photo.png'' = Some (File (Raster rgb_photo)) \<and>
   fst (png_to_svg env_ok ''photo.png'' (Some ''photo.png'') False world0) = Inr ''photo.png'' \<and>
   entry_at env_ok (snd (png_to_svg env_ok ''photo.png'' (Some ''photo.png'') False world0))
     ''photo.png'' = Some (File (Bytes ''<svg/>'')) \<and>
   fst (png_to_svg env_alias ''photo.png'' (Some ''./photo.png'') False world0) = Inr ''./photo.png'' \<and>
   entry_at env_alias (snd (png_to_svg env_alias ''photo.png'' (Some ''./photo.png'') False world0))
     ''photo.png'' = Some (File (Bytes ''<svg/>''))"
  by (simp (no_asm) only: photo0 run_overwrite simp_thms)

text \<open>
  C10, amended. The writes of a call go to the file that the resolved output path names, to
  the temporary directory and to the bitmap in it, and nowhere else. So after any call,
  successful or not, the input file is unchanged provided the resolved output path does not
  name the input file (under any spelling: the hypothesis compares the files, not the
  strings). The input is never the temporary directory, which is new; that it is not the
  bitmap in it is a hypothesis on the names \<^verbatim>\<open>mkdtemp\<close> may pick.
\<close>

theorem input_file_unchanged:
  assumes out: "\<not> same_file env input_file (resolve_output input_file output_file)"
    and tmp: "\<forall>d\<in>set (temp_names env). \<not> same_file env input_file (path_join d ''temp.bmp'')"
  shows "entry_at env (snd (png_to_svg env input_file output_file keep_temp_files w)) input_file =
         entry_at env w input_file"
proof (cases "path_exists env w input_file")
  case False
  then show ?thesis by (simp add: png_to_svg_def)
next
  case True
  have "\<not> same_file env input_file d \<and> \<not> same_file env input_file (path_join d ''temp.bmp'')"
    if d: "fst (mkdtemp env w) = Inr d" for d
    using new_dir_other [OF d True] tmp mkdtemp_name [OF d] by auto
  then show ?thesis using out png_to_svg_frame [of env input_file input_file output_file w]
    by metis
qed

theorem input_file_unchanged_witness:
  "resolve_output ''photo.png'' None = ''photo.svg'' \<and>
   entry_at env_ok (snd (png_to_svg env_ok ''photo.png'' None False world0)) ''photo.png'' =
     Some (File (Raster rgb_photo)) \<and>
   entry_at env_alias (snd (png_to_svg env_alias ''photo.png'' (Some ''./photo.svg'') False world0))
     ''photo.png'' = Some (File (Raster rgb_photo))"
proof -
  have r: "resolve_output ''photo.png'' None = ''photo.svg''"
    by (simp add: resolve_output_def splitext_photo)
  have out: "\<not> same_file env_ok ''photo.png'' (resolve_output ''photo.png'' None)"
    by (simp add: r same_file_def example_defs)
  have tmp: "\<forall>d\<in>set (temp_names env_ok). \<not> same_file env_ok ''photo.png'' (path_join d ''temp.bmp'')"
    by (simp add: same_file_def bmp0 example_defs)
  have out2: "\<not> same_file env_alias ''photo.png'' (resolve_output ''photo.png'' (Some ''./photo.svg''))"
    by (simp add: resolve_output_def same_file_def example_defs)
  have tmp2: "\<forall>d\<in>set (temp_names env_alias).
      \<not> same_file env_alias ''photo.png'' (path_join d ''temp.bmp'')"
    by (simp add: same_file_def bmp0 example_defs)
  have w: "entry_at env_alias world0 ''photo.png'' = Some (File (Raster rgb_photo))"
    by (simp add: entry_at_def example_defs)
  have k: "entry_at env_alias
      (snd (png_to_svg env_alias ''photo.png'' (Some ''./photo.svg'') False world0)) ''photo.png'' =
      Some (File (Raster rgb_photo))"
    using input_file_unchanged [OF out2 tmp2, of False world0] w by simp
  show ?thesis
    using input_file_unchanged [OF out tmp, of False world0] k
    by (simp (no_asm) only: r run_photo_clean simp_thms)
qed

end
